theory Spec2Isabelle
  imports Complex_Main
begin

section \<open>Driving-school enrollment and scheduling rules (backend/server.py)\<close>

text \<open>
  A shallow embedding of the route handlers \<open>create_course\<close>, \<open>create_schedule\<close>,
  \<open>create_exam\<close>, \<open>update_exam\<close> and \<open>update_payment\<close> of \<open>backend/server.py\<close>.
  The MongoDB collections are lists of typed records in insertion order; a handler
  takes the store and returns its result together with the store it leaves behind.
  An \<open>HTTPException\<close> raised by a handler is the left injection of the result.
\<close>

subsection \<open>Enumerations (lines 42-73)\<close>

datatype UserRole = STUDENT | TEACHER | MANAGER | ADMIN

datatype Gender = MALE | FEMALE | OTHER

datatype CourseType = CODE | PARKING | ROAD

datatype CourseStatus = NOT_STARTED | IN_PROGRESS | COMPLETED | FAILED

text \<open>\<open>ExamStatus.FAILED\<close>, \<open>PaymentStatus.COMPLETED\<close> and \<open>PaymentStatus.FAILED\<close> carry a
  prefix, since the names are taken by \<open>CourseStatus\<close>.\<close>

datatype ExamStatus = SCHEDULED | PASSED | EXAM_FAILED

datatype PaymentStatus = PENDING | PAYMENT_COMPLETED | PAYMENT_FAILED | REFUNDED

subsection \<open>Date and time\<close>

text \<open>
  A naive \<open>datetime\<close> is the number of microseconds since \<open>datetime.min\<close>
  (0001-01-01 00:00:00). \<open>datetime.max\<close> is the last microsecond of 9999-12-31, whose
  proleptic ordinal is 3652059. Arithmetic that leaves the range raises
  \<open>OverflowError\<close> in Python; \<open>add_timedelta\<close> returns \<open>None\<close> there.
  The store is taken to return a \<open>datetime\<close> as it was written, and to compare
  datetimes as the numbers they are.
\<close>

type_synonym datetime = int

definition datetime_max :: datetime where
  "datetime_max = 3652059 * 86400000000 - 1"

definition timedelta_minutes :: "int \<Rightarrow> int" where
  "timedelta_minutes m = m * 60000000"

definition timedelta_days :: "int \<Rightarrow> int" where
  "timedelta_days d = d * 86400000000"

definition add_timedelta :: "datetime \<Rightarrow> int \<Rightarrow> datetime option" where
  "add_timedelta t delta =
     (if 0 \<le> t + delta \<and> t + delta \<le> datetime_max then Some (t + delta) else None)"

text \<open>\<open>d.replace(minute=0, second=0, microsecond=0)\<close>\<close>

definition replace_minute_0 :: "datetime \<Rightarrow> datetime" where
  "replace_minute_0 t = t - t mod 3600000000"

text \<open>\<open>d.replace(hour=0, minute=0, second=0, microsecond=0)\<close>\<close>

definition replace_hour_0 :: "datetime \<Rightarrow> datetime" where
  "replace_hour_0 t = t - t mod 86400000000"

subsection \<open>Documents (lines 76-221)\<close>

text \<open>Only the fields that the modelled handlers read or write are kept for users,
  teachers and schools; courses, schedules, exams and payments keep every field.\<close>

record User =
  u_id :: string
  u_role :: UserRole
  u_gender :: Gender

record Teacher =
  t_id :: string
  t_user_id :: string
  t_driving_school_id :: string
  t_gender :: Gender

record DrivingSchool =
  s_id :: string
  s_manager_id :: string
  price_code :: real
  price_parking :: real
  price_road :: real

record CourseCreate =
  cc_type :: CourseType
  cc_student_id :: string
  cc_teacher_id :: string
  cc_driving_school_id :: string
  cc_status :: CourseStatus
  cc_start_date :: "datetime option"
  cc_completion_date :: "datetime option"

record Course =
  c_type :: CourseType
  c_student_id :: string
  c_teacher_id :: string
  c_driving_school_id :: string
  c_status :: CourseStatus
  c_start_date :: "datetime option"
  c_completion_date :: "datetime option"
  c_id :: string
  c_created_at :: datetime
  c_google_meet_link :: "string option"

record ScheduleCreate =
  rq_course_id :: string
  rq_date :: datetime
  rq_duration_minutes :: int

record Schedule =
  sc_course_id :: string
  sc_date :: datetime
  sc_duration_minutes :: int
  sc_id :: string
  sc_created_at :: datetime

record ExamCreate =
  ec_course_id :: string
  ec_date :: datetime
  ec_status :: ExamStatus

record Exam =
  e_course_id :: string
  e_date :: datetime
  e_status :: ExamStatus
  e_id :: string
  e_created_at :: datetime
  e_score :: "real option"
  e_feedback :: "string option"

record Payment =
  p_course_id :: string
  p_amount :: real
  p_status :: PaymentStatus
  p_id :: string
  p_created_at :: datetime
  p_transaction_id :: "string option"

record DB =
  users :: "User list"
  teachers :: "Teacher list"
  driving_schools :: "DrivingSchool list"
  courses :: "Course list"
  schedules :: "Schedule list"
  exams :: "Exam list"
  payments :: "Payment list"

text \<open>What a handler draws from outside the store while it runs: the \<open>uuid4\<close> values of
  the documents it builds, the \<open>utcnow\<close> readings, and the \<open>token_urlsafe\<close> string.\<close>

record Fresh =
  uuid_1 :: string
  utcnow_1 :: datetime
  uuid_2 :: string
  utcnow_2 :: datetime
  token_urlsafe :: string

subsection \<open>Collection operations\<close>

fun find_one :: "('a \<Rightarrow> bool) \<Rightarrow> 'a list \<Rightarrow> 'a option" where
  "find_one q [] = None"
| "find_one q (d # ds) = (if q d then Some d else find_one q ds)"

text \<open>\<open>find(q).to_list(n)\<close>: the first \<open>n\<close> matching documents.\<close>

definition find_to_list :: "nat \<Rightarrow> ('a \<Rightarrow> bool) \<Rightarrow> 'a list \<Rightarrow> 'a list" where
  "find_to_list n q ds = take n (filter q ds)"

definition insert_one :: "'a \<Rightarrow> 'a list \<Rightarrow> 'a list" where
  "insert_one d ds = ds @ [d]"

text \<open>\<open>update_one(q, {"$set": ...})\<close> changes the first matching document only.\<close>

fun update_one :: "('a \<Rightarrow> bool) \<Rightarrow> ('a \<Rightarrow> 'a) \<Rightarrow> 'a list \<Rightarrow> 'a list" where
  "update_one q f [] = []"
| "update_one q f (d # ds) = (if q d then f d # ds else d # update_one q f ds)"

subsection \<open>Errors\<close>

text \<open>An \<open>HTTPException\<close> carries its status code and detail. \<open>TypeError\<close>,
  \<open>OverflowError\<close> and \<open>AttributeError\<close> are the exceptions no handler catches
  (subscripting \<open>None\<close>, a \<open>datetime\<close> out of range, a missing attribute).\<close>

datatype error = HTTPException nat string | TypeError | OverflowError | AttributeError

abbreviation InvalidStudent :: error where
  "InvalidStudent \<equiv> HTTPException 400 ''Invalid student_id''"

abbreviation InvalidTeacher :: error where
  "InvalidTeacher \<equiv> HTTPException 400 ''Invalid teacher_id''"

abbreviation InvalidSchool :: error where
  "InvalidSchool \<equiv> HTTPException 400 ''Invalid driving_school_id''"

abbreviation InvalidCourse :: error where
  "InvalidCourse \<equiv> HTTPException 400 ''Invalid course_id''"

abbreviation TeacherNotFound :: error where
  "TeacherNotFound \<equiv> HTTPException 400 ''Teacher not found for this course''"

abbreviation GenderMismatch :: error where
  "GenderMismatch \<equiv> HTTPException 400 ''Teacher and student genders must match''"

abbreviation DuplicateEnrollment_CODE :: error where
  "DuplicateEnrollment_CODE \<equiv> HTTPException 400 ''Student already enrolled in a CODE course''"

abbreviation DuplicateEnrollment_PARKING :: error where
  "DuplicateEnrollment_PARKING \<equiv>
     HTTPException 400 ''Student already enrolled in a PARKING course''"

abbreviation DuplicateEnrollment_ROAD :: error where
  "DuplicateEnrollment_ROAD \<equiv> HTTPException 400 ''Student already enrolled in a ROAD course''"

abbreviation PrerequisiteNotMet_PARKING :: error where
  "PrerequisiteNotMet_PARKING \<equiv>
     HTTPException 400 ''Student must complete CODE course before enrolling in PARKING course''"

abbreviation PrerequisiteNotMet_ROAD :: error where
  "PrerequisiteNotMet_ROAD \<equiv>
     HTTPException 400 ''Student must complete PARKING course before enrolling in ROAD course''"

abbreviation SlotTaken :: error where
  "SlotTaken \<equiv> HTTPException 400 ''Teacher already has a student scheduled for this time''"

abbreviation CapacityExceeded :: error where
  "CapacityExceeded \<equiv> HTTPException 400
     ''Teacher already has the maximum number of CODE students scheduled for this time''"

abbreviation DailyCapacityExceeded_PARKING :: error where
  "DailyCapacityExceeded_PARKING \<equiv> HTTPException 400
     ''Teacher already has the maximum number of PARKING students scheduled for this day''"

abbreviation DailyCapacityExceeded_ROAD :: error where
  "DailyCapacityExceeded_ROAD \<equiv> HTTPException 400
     ''Teacher already has the maximum number of ROAD students scheduled for this day''"


text \<open>The error kinds of the specification, as functions of the course type, and the
  kind \<open>Forbidden\<close> as the status code 403.\<close>

fun DuplicateEnrollment :: "CourseType \<Rightarrow> error" where
  "DuplicateEnrollment CODE = DuplicateEnrollment_CODE"
| "DuplicateEnrollment PARKING = DuplicateEnrollment_PARKING"
| "DuplicateEnrollment ROAD = DuplicateEnrollment_ROAD"

definition is_PrerequisiteNotMet :: "error \<Rightarrow> bool" where
  "is_PrerequisiteNotMet e = (e = PrerequisiteNotMet_PARKING \<or> e = PrerequisiteNotMet_ROAD)"

definition is_DailyCapacityExceeded :: "error \<Rightarrow> bool" where
  "is_DailyCapacityExceeded e =
     (e = DailyCapacityExceeded_PARKING \<or> e = DailyCapacityExceeded_ROAD)"

fun is_Forbidden :: "error \<Rightarrow> bool" where
  "is_Forbidden (HTTPException code d) = (code = 403)"
| "is_Forbidden TypeError = False"
| "is_Forbidden OverflowError = False"
| "is_Forbidden AttributeError = False"

subsection \<open>\<open>create_course\<close> (lines 412-536)\<close>

text \<open>The type-specific rules of lines 449-511: \<open>None\<close> when no rule rejects.\<close>

definition enrollment_rules :: "CourseCreate \<Rightarrow> DB \<Rightarrow> error option" where
  "enrollment_rules course db =
     (if cc_type course = CODE then
        (case find_one (\<lambda>c. c_student_id c = cc_student_id course \<and> c_type c = CODE
                              \<and> c_status c \<noteq> FAILED) (courses db) of
           Some existing_code_course \<Rightarrow> Some DuplicateEnrollment_CODE
         | None \<Rightarrow> None)
      else if cc_type course = PARKING then
        (case find_one (\<lambda>c. c_student_id c = cc_student_id course \<and> c_type c = CODE
                              \<and> c_status c = COMPLETED) (courses db) of
           None \<Rightarrow> Some PrerequisiteNotMet_PARKING
         | Some code_course \<Rightarrow>
             (case find_one (\<lambda>c. c_student_id c = cc_student_id course \<and> c_type c = PARKING
                                   \<and> c_status c \<noteq> FAILED) (courses db) of
                Some existing_parking_course \<Rightarrow> Some DuplicateEnrollment_PARKING
              | None \<Rightarrow> None))
      else if cc_type course = ROAD then
        (case find_one (\<lambda>c. c_student_id c = cc_student_id course \<and> c_type c = PARKING
                              \<and> c_status c = COMPLETED) (courses db) of
           None \<Rightarrow> Some PrerequisiteNotMet_ROAD
         | Some parking_course \<Rightarrow>
             (case find_one (\<lambda>c. c_student_id c = cc_student_id course \<and> c_type c = ROAD
                                   \<and> c_status c \<noteq> FAILED) (courses db) of
                Some existing_road_course \<Rightarrow> Some DuplicateEnrollment_ROAD
              | None \<Rightarrow> None))
      else None)"

text \<open>\<open>Course(**course.dict())\<close> copies every field of the request, the status and the
  two dates included; the id and \<open>created_at\<close> are drawn fresh, and a CODE course gets
  its meeting link (lines 513-516).\<close>

definition new_course :: "Fresh \<Rightarrow> CourseCreate \<Rightarrow> Course" where
  "new_course fr course =
     \<lparr> c_type = cc_type course,
       c_student_id = cc_student_id course,
       c_teacher_id = cc_teacher_id course,
       c_driving_school_id = cc_driving_school_id course,
       c_status = cc_status course,
       c_start_date = cc_start_date course,
       c_completion_date = cc_completion_date course,
       c_id = uuid_1 fr,
       c_created_at = utcnow_1 fr,
       c_google_meet_link =
         (if cc_type course = CODE
          then Some (''https://meet.google.com/'' @ token_urlsafe fr) else None) \<rparr>"

definition course_price :: "CourseCreate \<Rightarrow> DrivingSchool \<Rightarrow> real" where
  "course_price course school =
     (if cc_type course = CODE then price_code school
      else if cc_type course = PARKING then price_parking school
      else if cc_type course = ROAD then price_road school
      else 0)"

definition new_payment :: "Fresh \<Rightarrow> CourseCreate \<Rightarrow> DrivingSchool \<Rightarrow> Payment" where
  "new_payment fr course school =
     \<lparr> p_course_id = uuid_1 fr,
       p_amount = course_price course school,
       p_status = PENDING,
       p_id = uuid_2 fr,
       p_created_at = utcnow_2 fr,
       p_transaction_id = None \<rparr>"

text \<open>The handler never reads \<open>current_user\<close>: the dependency only authenticates.\<close>

definition create_course ::
  "Fresh \<Rightarrow> CourseCreate \<Rightarrow> User \<Rightarrow> DB \<Rightarrow> (error + Course) \<times> DB" where
  "create_course fr course current_user db =
     (case find_one (\<lambda>u. u_id u = cc_student_id course) (users db) of
        None \<Rightarrow> (Inl InvalidStudent, db)
      | Some student \<Rightarrow>
          if u_role student \<noteq> STUDENT then (Inl InvalidStudent, db)
          else
            (case find_one (\<lambda>t. t_id t = cc_teacher_id course) (teachers db) of
               None \<Rightarrow> (Inl InvalidTeacher, db)
             | Some teacher \<Rightarrow>
                 (case find_one (\<lambda>s. s_id s = cc_driving_school_id course)
                         (driving_schools db) of
                    None \<Rightarrow> (Inl InvalidSchool, db)
                  | Some school \<Rightarrow>
                      (case find_one (\<lambda>u. u_id u = t_user_id teacher) (users db) of
                         None \<Rightarrow> (Inl TypeError, db)
                       | Some teacher_user \<Rightarrow>
                           if u_gender teacher_user \<noteq> u_gender student
                           then (Inl GenderMismatch, db)
                           else
                             (case enrollment_rules course db of
                                Some e \<Rightarrow> (Inl e, db)
                              | None \<Rightarrow>
                                  (Inr (new_course fr course),
                                   db\<lparr> courses := insert_one (new_course fr course) (courses db),
                                       payments := insert_one (new_payment fr course school)
                                                     (payments db) \<rparr>))))))"

subsection \<open>\<open>create_schedule\<close> (lines 583-695)\<close>

text \<open>Lines 632-634: the ids of the first 1000 courses of the course's teacher.\<close>

definition teacher_course_ids :: "DB \<Rightarrow> Course \<Rightarrow> string list" where
  "teacher_course_ids db course =
     map c_id (find_to_list 1000 (\<lambda>c. c_teacher_id c = c_teacher_id course) (courses db))"

text \<open>Lines 625-639: the stored schedules of those courses whose start lies in
  \<open>[schedule_date, end_date)\<close>.\<close>

definition existing_schedules ::
  "DB \<Rightarrow> string list \<Rightarrow> datetime \<Rightarrow> datetime \<Rightarrow> Schedule list" where
  "existing_schedules db ids schedule_date end_date =
     find_to_list 1000
       (\<lambda>s. sc_date s < end_date \<and> schedule_date \<le> sc_date s \<and> sc_course_id s \<in> set ids)
       (schedules db)"

text \<open>Lines 661-669.\<close>

definition day_schedules :: "DB \<Rightarrow> string list \<Rightarrow> datetime \<Rightarrow> datetime \<Rightarrow> Schedule list" where
  "day_schedules db ids day_start day_end =
     find_to_list 1000
       (\<lambda>s. day_start \<le> sc_date s \<and> sc_date s < day_end \<and> sc_course_id s \<in> set ids)
       (schedules db)"

text \<open>\<open>d.get(k, 0)\<close> on a dictionary of counters.\<close>

definition dict_get :: "('k \<rightharpoonup> nat) \<Rightarrow> 'k \<Rightarrow> nat" where
  "dict_get d k = (case d k of None \<Rightarrow> 0 | Some n \<Rightarrow> n)"

text \<open>The loop of lines 672-677, with the dictionary as accumulator.\<close>

fun day_course_types ::
  "Course list \<Rightarrow> Schedule list \<Rightarrow> (CourseType \<rightharpoonup> nat) \<Rightarrow> (CourseType \<rightharpoonup> nat)" where
  "day_course_types cs [] d = d"
| "day_course_types cs (ds # rest) d =
     (case find_one (\<lambda>c. c_id c = sc_course_id ds) cs of
        None \<Rightarrow> day_course_types cs rest d
      | Some ds_course \<Rightarrow>
          day_course_types cs rest (d(c_type ds_course \<mapsto> dict_get d (c_type ds_course) + 1)))"

text \<open>Lines 636-689, entered when \<open>teacher_course_ids\<close> is not empty.\<close>

definition scheduling_limits ::
  "DB \<Rightarrow> Course \<Rightarrow> string list \<Rightarrow> datetime \<Rightarrow> datetime \<Rightarrow> error option" where
  "scheduling_limits db course ids schedule_date end_date =
     (if c_type course = CODE then
        (if length (existing_schedules db ids schedule_date end_date) \<ge> 20
         then Some CapacityExceeded else None)
      else if existing_schedules db ids schedule_date end_date \<noteq> [] then Some SlotTaken
      else
        (case add_timedelta (replace_hour_0 schedule_date) (timedelta_days 1) of
           None \<Rightarrow> Some OverflowError
         | Some day_end \<Rightarrow>
             (let counts = day_course_types (courses db)
                             (day_schedules db ids (replace_hour_0 schedule_date) day_end)
                             Map.empty
              in if c_type course = PARKING \<and> dict_get counts PARKING \<ge> 3
                 then Some DailyCapacityExceeded_PARKING
                 else if c_type course = ROAD \<and> dict_get counts ROAD \<ge> 3
                 then Some DailyCapacityExceeded_ROAD
                 else None)))"

text \<open>\<open>Schedule(**schedule.dict())\<close> (line 692) is built from the request as received:
  the date of the request, not \<open>schedule_date\<close>.\<close>

definition new_schedule :: "Fresh \<Rightarrow> ScheduleCreate \<Rightarrow> Schedule" where
  "new_schedule fr schedule =
     \<lparr> sc_course_id = rq_course_id schedule,
       sc_date = rq_date schedule,
       sc_duration_minutes = rq_duration_minutes schedule,
       sc_id = uuid_1 fr,
       sc_created_at = utcnow_1 fr \<rparr>"

definition create_schedule ::
  "Fresh \<Rightarrow> ScheduleCreate \<Rightarrow> User \<Rightarrow> DB \<Rightarrow> (error + Schedule) \<times> DB" where
  "create_schedule fr schedule current_user db =
     (if u_role current_user \<notin> set [MANAGER, TEACHER, ADMIN]
      then (Inl (HTTPException 403
                  ''Only managers, teachers, and admins can create schedules''), db)
      else
        (case find_one (\<lambda>c. c_id c = rq_course_id schedule) (courses db) of
           None \<Rightarrow> (Inl InvalidCourse, db)
         | Some course \<Rightarrow>
             (case find_one (\<lambda>t. t_id t = c_teacher_id course) (teachers db) of
                None \<Rightarrow> (Inl TeacherNotFound, db)
              | Some teacher \<Rightarrow>
                  if u_role current_user = TEACHER \<and>
                     (case find_one (\<lambda>t. t_user_id t = u_id current_user) (teachers db) of
                        None \<Rightarrow> True
                      | Some teacher_record \<Rightarrow> t_id teacher_record \<noteq> c_teacher_id course)
                  then (Inl (HTTPException 403
                              ''Teachers can only create schedules for their own courses''), db)
                  else
                    (case add_timedelta (replace_minute_0 (rq_date schedule))
                            (timedelta_minutes (rq_duration_minutes schedule)) of
                       None \<Rightarrow> (Inl OverflowError, db)
                     | Some end_date \<Rightarrow>
                         (case (if teacher_course_ids db course \<noteq> []
                                then scheduling_limits db course (teacher_course_ids db course)
                                       (replace_minute_0 (rq_date schedule)) end_date
                                else None) of
                            Some e \<Rightarrow> (Inl e, db)
                          | None \<Rightarrow>
                              (Inr (new_schedule fr schedule),
                               db\<lparr> schedules :=
                                     insert_one (new_schedule fr schedule) (schedules db) \<rparr>))))))"

subsection \<open>\<open>create_exam\<close> (lines 755-788)\<close>

definition new_exam :: "Fresh \<Rightarrow> ExamCreate \<Rightarrow> Exam" where
  "new_exam fr exam =
     \<lparr> e_course_id = ec_course_id exam,
       e_date = ec_date exam,
       e_status = ec_status exam,
       e_id = uuid_1 fr,
       e_created_at = utcnow_1 fr,
       e_score = None,
       e_feedback = None \<rparr>"

definition create_exam :: "Fresh \<Rightarrow> ExamCreate \<Rightarrow> User \<Rightarrow> DB \<Rightarrow> (error + Exam) \<times> DB" where
  "create_exam fr exam current_user db =
     (if u_role current_user \<notin> set [MANAGER, TEACHER, ADMIN]
      then (Inl (HTTPException 403 ''Only managers, teachers, and admins can create exams''), db)
      else
        (case find_one (\<lambda>c. c_id c = ec_course_id exam) (courses db) of
           None \<Rightarrow> (Inl InvalidCourse, db)
         | Some course \<Rightarrow>
             if u_role current_user = TEACHER \<and>
                (case find_one (\<lambda>t. t_user_id t = u_id current_user) (teachers db) of
                   None \<Rightarrow> True
                 | Some teacher \<Rightarrow> t_id teacher \<noteq> c_teacher_id course)
             then (Inl (HTTPException 403
                         ''Teachers can only create exams for their own courses''), db)
             else (Inr (new_exam fr exam),
                   db\<lparr> exams := insert_one (new_exam fr exam) (exams db) \<rparr>)))"

subsection \<open>\<open>update_exam\<close> (lines 790-852)\<close>

text \<open>
  The handler's parameter \<open>status: ExamStatus\<close> (line 793) hides the module \<open>status\<close>
  of fastapi inside the handler. Each \<open>raise HTTPException(status_code=status.HTTP_...)\<close>
  of lines 800-828 therefore fails while its argument is evaluated: an enum member has
  no such attribute, and what leaves the handler is an \<open>AttributeError\<close>, before any
  write.
\<close>

text \<open>The \<open>$set\<close> of lines 831-837: the status always, score and feedback when given.\<close>

definition set_exam_fields ::
  "ExamStatus \<Rightarrow> real option \<Rightarrow> string option \<Rightarrow> Exam \<Rightarrow> Exam" where
  "set_exam_fields status score feedback e =
     e\<lparr> e_status := status,
        e_score := (case score of None \<Rightarrow> e_score e | Some v \<Rightarrow> Some v),
        e_feedback := (case feedback of None \<Rightarrow> e_feedback e | Some v \<Rightarrow> Some v) \<rparr>"

text \<open>Lines 839-849: the course write that follows the exam write.\<close>

definition propagate_exam_status :: "ExamStatus \<Rightarrow> Course \<Rightarrow> Course list \<Rightarrow> Course list" where
  "propagate_exam_status status course cs =
     (if status = PASSED
      then update_one (\<lambda>c. c_id c = c_id course) (\<lambda>c. c\<lparr> c_status := COMPLETED \<rparr>) cs
      else if status = EXAM_FAILED
      then update_one (\<lambda>c. c_id c = c_id course) (\<lambda>c. c\<lparr> c_status := FAILED \<rparr>) cs
      else cs)"

definition update_exam ::
  "string \<Rightarrow> ExamStatus \<Rightarrow> real option \<Rightarrow> string option \<Rightarrow> User \<Rightarrow> DB
     \<Rightarrow> (error + Exam) \<times> DB" where
  "update_exam exam_id status score feedback current_user db =
     (if u_role current_user \<notin> set [MANAGER, TEACHER, ADMIN]
      then (Inl AttributeError, db)
      else
        (case find_one (\<lambda>e. e_id e = exam_id) (exams db) of
           None \<Rightarrow> (Inl AttributeError, db)
         | Some exam \<Rightarrow>
             (case find_one (\<lambda>c. c_id c = e_course_id exam) (courses db) of
                None \<Rightarrow> (Inl AttributeError, db)
              | Some course \<Rightarrow>
                  if u_role current_user = TEACHER \<and>
                     (case find_one (\<lambda>t. t_user_id t = u_id current_user) (teachers db) of
                        None \<Rightarrow> True
                      | Some teacher \<Rightarrow> t_id teacher \<noteq> c_teacher_id course)
                  then (Inl AttributeError, db)
                  else
                    (let db' = db\<lparr> exams := update_one (\<lambda>e. e_id e = exam_id)
                                              (set_exam_fields status score feedback) (exams db),
                                    courses := propagate_exam_status status course (courses db) \<rparr>
                     in case find_one (\<lambda>e. e_id e = exam_id) (exams db') of
                          None \<Rightarrow> (Inl TypeError, db')
                        | Some updated_exam \<Rightarrow> (Inr updated_exam, db')))))"

subsection \<open>\<open>update_payment\<close> (lines 929-971)\<close>

text \<open>
  Here too the parameter \<open>status: PaymentStatus\<close> (line 932) hides fastapi's module
  \<open>status\<close>, so each \<open>raise\<close> of lines 938-958 ends in an \<open>AttributeError\<close>.
\<close>

text \<open>Lines 963-968: the course write that follows the payment write; \<open>course\<close> is the
  document read before the payment write.\<close>

definition propagate_payment_status ::
  "PaymentStatus \<Rightarrow> Course \<Rightarrow> Course list \<Rightarrow> Course list" where
  "propagate_payment_status status course cs =
     (if status = PAYMENT_COMPLETED \<and> c_status course = NOT_STARTED
      then update_one (\<lambda>c. c_id c = c_id course) (\<lambda>c. c\<lparr> c_status := IN_PROGRESS \<rparr>) cs
      else cs)"

definition update_payment ::
  "string \<Rightarrow> PaymentStatus \<Rightarrow> User \<Rightarrow> DB \<Rightarrow> (error + Payment) \<times> DB" where
  "update_payment payment_id status current_user db =
     (case find_one (\<lambda>p. p_id p = payment_id) (payments db) of
        None \<Rightarrow> (Inl AttributeError, db)
      | Some payment \<Rightarrow>
          (case find_one (\<lambda>c. c_id c = p_course_id payment) (courses db) of
             None \<Rightarrow> (Inl AttributeError, db)
           | Some course \<Rightarrow>
               if u_role current_user \<noteq> ADMIN \<and> u_role current_user \<noteq> MANAGER \<and>
                  u_id current_user \<noteq> c_student_id course
               then (Inl AttributeError, db)
               else
                 (let db' = db\<lparr> payments := update_one (\<lambda>p. p_id p = payment_id)
                                              (\<lambda>p. p\<lparr> p_status := status \<rparr>) (payments db),
                                 courses := propagate_payment_status status course (courses db) \<rparr>
                  in case find_one (\<lambda>p. p_id p = payment_id) (payments db') of
                       None \<Rightarrow> (Inl TypeError, db')
                     | Some updated_payment \<Rightarrow> (Inr updated_payment, db'))))"

section \<open>Notions used to state the properties\<close>

text \<open>Who may record a payment outcome (lines 952-954).\<close>

definition payment_permitted :: "User \<Rightarrow> Course \<Rightarrow> bool" where
  "payment_permitted current_user course =
     (u_role current_user = ADMIN \<or> u_role current_user = MANAGER \<or>
      u_id current_user = c_student_id course)"

text \<open>Who may book a slot or record an exam outcome for a course: a manager, an admin,
  or the teacher whose teacher record is the course's (lines 589 and 612-614, 799 and
  822-824).\<close>

definition staff_permitted :: "User \<Rightarrow> Course \<Rightarrow> DB \<Rightarrow> bool" where
  "staff_permitted current_user course db =
     (u_role current_user = MANAGER \<or> u_role current_user = ADMIN \<or>
      (u_role current_user = TEACHER \<and>
       (case find_one (\<lambda>t. t_user_id t = u_id current_user) (teachers db) of
          None \<Rightarrow> False
        | Some teacher_record \<Rightarrow> t_id teacher_record = c_teacher_id course)))"

text \<open>The status of the course stored under an id.\<close>

definition course_status :: "DB \<Rightarrow> string \<Rightarrow> CourseStatus option" where
  "course_status db cid = map_option c_status (find_one (\<lambda>c. c_id c = cid) (courses db))"

subsection \<open>A sample school\<close>

definition user_s1 :: User where
  "user_s1 = \<lparr> u_id = ''s1'', u_role = STUDENT, u_gender = MALE \<rparr>"

definition user_s2 :: User where
  "user_s2 = \<lparr> u_id = ''s2'', u_role = STUDENT, u_gender = FEMALE \<rparr>"

definition user_tu1 :: User where
  "user_tu1 = \<lparr> u_id = ''tu1'', u_role = TEACHER, u_gender = MALE \<rparr>"

definition user_tu2 :: User where
  "user_tu2 = \<lparr> u_id = ''tu2'', u_role = TEACHER, u_gender = FEMALE \<rparr>"

definition user_m1 :: User where
  "user_m1 = \<lparr> u_id = ''m1'', u_role = MANAGER, u_gender = MALE \<rparr>"

definition user_a1 :: User where
  "user_a1 = \<lparr> u_id = ''a1'', u_role = ADMIN, u_gender = FEMALE \<rparr>"

definition teacher_t1 :: Teacher where
  "teacher_t1 = \<lparr> t_id = ''t1'', t_user_id = ''tu1'', t_driving_school_id = ''sch1'',
                   t_gender = MALE \<rparr>"

definition teacher_t2 :: Teacher where
  "teacher_t2 = \<lparr> t_id = ''t2'', t_user_id = ''tu2'', t_driving_school_id = ''sch1'',
                   t_gender = FEMALE \<rparr>"

definition school_1 :: DrivingSchool where
  "school_1 = \<lparr> s_id = ''sch1'', s_manager_id = ''m1'', price_code = 5000,
                 price_parking = 10000, price_road = 15000 \<rparr>"

definition db0 :: DB where
  "db0 = \<lparr> users = [user_s1, user_s2, user_tu1, user_tu2, user_m1, user_a1],
            teachers = [teacher_t1, teacher_t2],
            driving_schools = [school_1],
            courses = [], schedules = [], exams = [], payments = [] \<rparr>"

text \<open>A request body that leaves status and dates at their defaults.\<close>

definition enroll :: "CourseType \<Rightarrow> string \<Rightarrow> string \<Rightarrow> CourseCreate" where
  "enroll ty student teacher =
     \<lparr> cc_type = ty, cc_student_id = student, cc_teacher_id = teacher,
       cc_driving_school_id = ''sch1'', cc_status = NOT_STARTED,
       cc_start_date = None, cc_completion_date = None \<rparr>"

definition fresh :: "string \<Rightarrow> string \<Rightarrow> datetime \<Rightarrow> Fresh" where
  "fresh a b t =
     \<lparr> uuid_1 = a, utcnow_1 = t, uuid_2 = b, utcnow_2 = t, token_urlsafe = ''tok'' \<rparr>"

text \<open>Student s1 enrolled in a CODE course with teacher t1; then an exam set for it.\<close>

definition db1 :: DB where
  "db1 = snd (create_course (fresh ''c1'' ''p1'' 100) (enroll CODE ''s1'' ''t1'') user_s1 db0)"

definition db2 :: DB where
  "db2 = snd (create_exam (fresh ''e1'' [] 200)
                \<lparr> ec_course_id = ''c1'', ec_date = 5000, ec_status = SCHEDULED \<rparr>
                user_tu1 db1)"

text \<open>The course status that lines 839-849 leave behind.\<close>

definition exam_outcome :: "ExamStatus \<Rightarrow> CourseStatus \<Rightarrow> CourseStatus" where
  "exam_outcome status before =
     (if status = PASSED then COMPLETED else if status = EXAM_FAILED then FAILED else before)"

subsection \<open>Enrollment notions\<close>

text \<open>The checks of lines 417-447 all pass: the student resolves and has the student
  role, teacher and school resolve, the teacher's user resolves and has the student's
  gender.\<close>

definition enrollment_checks :: "CourseCreate \<Rightarrow> DB \<Rightarrow> bool" where
  "enrollment_checks course db =
     (case find_one (\<lambda>u. u_id u = cc_student_id course) (users db) of
        None \<Rightarrow> False
      | Some student \<Rightarrow>
          u_role student = STUDENT \<and>
          (case find_one (\<lambda>t. t_id t = cc_teacher_id course) (teachers db) of
             None \<Rightarrow> False
           | Some teacher \<Rightarrow>
               find_one (\<lambda>s. s_id s = cc_driving_school_id course) (driving_schools db) \<noteq> None \<and>
               (case find_one (\<lambda>u. u_id u = t_user_id teacher) (users db) of
                  None \<Rightarrow> False
                | Some teacher_user \<Rightarrow> u_gender teacher_user = u_gender student)))"

text \<open>The student has a completed course of the type.\<close>

definition has_completed :: "DB \<Rightarrow> string \<Rightarrow> CourseType \<Rightarrow> bool" where
  "has_completed db student ty =
     (\<exists>c \<in> set (courses db). c_student_id c = student \<and> c_type c = ty \<and> c_status c = COMPLETED)"

text \<open>The student's courses of the type that have not failed.\<close>

definition live_courses :: "DB \<Rightarrow> string \<Rightarrow> CourseType \<Rightarrow> Course list" where
  "live_courses db student ty =
     filter (\<lambda>c. c_student_id c = student \<and> c_type c = ty \<and> c_status c \<noteq> FAILED) (courses db)"

text \<open>The prerequisite chain: code, then parking, then road.\<close>

fun prerequisite_met :: "DB \<Rightarrow> string \<Rightarrow> CourseType \<Rightarrow> bool" where
  "prerequisite_met db student CODE = True"
| "prerequisite_met db student PARKING = has_completed db student CODE"
| "prerequisite_met db student ROAD = has_completed db student PARKING"

subsection \<open>Sample stores after an exam outcome\<close>

text \<open>The exam of the sample course passed.\<close>

definition db_passed :: DB where
  "db_passed = snd (update_exam ''e1'' PASSED (Some 18) None user_tu1 db2)"

text \<open>The sample school with a student of gender \<open>other\<close>.\<close>

definition db_other :: DB where
  "db_other = db0\<lparr> users := \<lparr> u_id = ''s3'', u_role = STUDENT, u_gender = OTHER \<rparr> # users db0 \<rparr>"

text \<open>The exam of the sample course failed; the student enrolled in CODE again; then
  the first exam was recorded as passed.\<close>

definition db_failed :: DB where
  "db_failed = snd (update_exam ''e1'' EXAM_FAILED None None user_tu1 db2)"

definition db_retry :: DB where
  "db_retry = snd (create_course (fresh ''c2'' ''p2'' 300) (enroll CODE ''s1'' ''t1'') user_s1
                    db_failed)"

definition db_revived :: DB where
  "db_revived = snd (update_exam ''e1'' PASSED (Some 18) None user_tu1 db_retry)"

subsection \<open>Course frames and booking requests\<close>

text \<open>A course with its status blanked: what is left are the fields that recording an
  outcome must not touch.\<close>

definition erase_status :: "Course \<Rightarrow> Course" where
  "erase_status c = c\<lparr> c_status := NOT_STARTED \<rparr>"

text \<open>A time of day on a numbered day, and a booking request.\<close>

definition at_clock :: "int \<Rightarrow> int \<Rightarrow> int \<Rightarrow> datetime" where
  "at_clock day h m = day * 86400000000 + h * 3600000000 + m * 60000000"

definition booking :: "string \<Rightarrow> datetime \<Rightarrow> int \<Rightarrow> ScheduleCreate" where
  "booking cid t minutes =
     \<lparr> rq_course_id = cid, rq_date = t, rq_duration_minutes = minutes \<rparr>"

text \<open>The exception a call ends with, if any.\<close>

definition rejection :: "(error + 'a) \<times> DB \<Rightarrow> error option" where
  "rejection r = (case fst r of Inl e \<Rightarrow> Some e | Inr x \<Rightarrow> None)"

text \<open>After the passed CODE exam, student s1 enrolled in PARKING with teacher t1.\<close>

definition db_parking :: DB where
  "db_parking = snd (create_course (fresh ''c3'' ''p3'' 300) (enroll PARKING ''s1'' ''t1'')
                      user_s1 db_passed)"

subsection \<open>Slots and days\<close>

text \<open>All stored schedules of the courses of a teacher, with no limit on the scan.\<close>

definition teacher_schedules :: "DB \<Rightarrow> string \<Rightarrow> Schedule list" where
  "teacher_schedules db tid =
     filter (\<lambda>s. \<exists>c \<in> set (courses db). c_teacher_id c = tid \<and> c_id c = sc_course_id s)
       (schedules db)"

text \<open>The teacher of the course has at most 1000 courses, so that the scan of line 633
  sees all of them.\<close>

definition few_courses :: "DB \<Rightarrow> Course \<Rightarrow> bool" where
  "few_courses db course =
     (length (filter (\<lambda>c. c_teacher_id c = c_teacher_id course) (courses db)) \<le> 1000)"

text \<open>The end of a stored schedule; a schedule that starts within \<open>[lo, hi)\<close>; one whose
  interval \<open>[start, end)\<close> meets \<open>[lo, hi)\<close>; one that started before \<open>t\<close> and has not
  ended at \<open>t\<close>.\<close>

definition sc_end :: "Schedule \<Rightarrow> datetime" where
  "sc_end s = sc_date s + timedelta_minutes (sc_duration_minutes s)"


definition overlaps :: "datetime \<Rightarrow> datetime \<Rightarrow> Schedule \<Rightarrow> bool" where
  "overlaps lo hi s = (sc_date s < hi \<and> lo < sc_end s)"


text \<open>Stored schedules for the samples: the \<open>n\<close>-th lesson of a course at a given time,
  the sample store with \<open>n\<close> lessons of the CODE course c1 at 10:00, and the sample store
  after a half-hour PARKING lesson was booked at 10:00.\<close>

definition lesson :: "string \<Rightarrow> datetime \<Rightarrow> int \<Rightarrow> nat \<Rightarrow> Schedule" where
  "lesson cid t minutes n =
     \<lparr> sc_course_id = cid, sc_date = t, sc_duration_minutes = minutes,
       sc_id = replicate (Suc n) (CHR ''k''), sc_created_at = 400 \<rparr>"



text \<open>How many stored schedules of a teacher lie on the calendar day of \<open>t\<close> and belong
  to a course of the given type, with no limit on the scans.\<close>

definition day_count :: "DB \<Rightarrow> string \<Rightarrow> CourseType \<Rightarrow> datetime \<Rightarrow> nat" where
  "day_count db tid ty t =
     length (filter
       (\<lambda>s. replace_hour_0 t \<le> sc_date s \<and> sc_date s < replace_hour_0 t + timedelta_days 1
             \<and> (case find_one (\<lambda>c. c_id c = sc_course_id s) (courses db) of
                  None \<Rightarrow> False
                | Some c \<Rightarrow> c_type c = ty))
       (teacher_schedules db tid))"

text \<open>A teacher with 1001 courses: 1000 CODE courses of as many students, then the
  PARKING course of student s1, which has three lessons on day 738000.\<close>

definition code_course :: "nat \<Rightarrow> Course" where
  "code_course n =
     \<lparr> c_type = CODE, c_student_id = replicate (Suc n) (CHR ''s''), c_teacher_id = ''t1'',
       c_driving_school_id = ''sch1'', c_status = IN_PROGRESS, c_start_date = None,
       c_completion_date = None, c_id = replicate (Suc n) (CHR ''c''), c_created_at = 100,
       c_google_meet_link = Some ''https://meet.google.com/tok'' \<rparr>"

definition parking_course :: Course where
  "parking_course =
     \<lparr> c_type = PARKING, c_student_id = ''s1'', c_teacher_id = ''t1'',
       c_driving_school_id = ''sch1'', c_status = IN_PROGRESS, c_start_date = None,
       c_completion_date = None, c_id = ''pk'', c_created_at = 300,
       c_google_meet_link = None \<rparr>"

definition db_busy :: DB where
  "db_busy = db0\<lparr>
     courses := map code_course [0..<1000] @ [parking_course],
     schedules := [lesson ''pk'' (at_clock 738000 9 0) 60 0,
                   lesson ''pk'' (at_clock 738000 11 0) 60 1,
                   lesson ''pk'' (at_clock 738000 13 0) 60 2] \<rparr>"

section \<open>Facts about the collection operations\<close>

lemma find_one_SomeD: "find_one q ds = Some d \<Longrightarrow> q d \<and> d \<in> set ds"
  by (induction ds) (auto split: if_splits)

lemma find_one_None_iff: "find_one q ds = None \<longleftrightarrow> (\<forall>d \<in> set ds. \<not> q d)"
  by (induction ds) auto

lemma find_one_update_one:
  "find_one q ds = Some d \<Longrightarrow> q (f d) \<Longrightarrow> find_one q (update_one q f ds) = Some (f d)"
  by (induction ds) (auto split: if_splits)

lemma update_one_twice:
  "(\<And>d. q d \<Longrightarrow> q (f d)) \<Longrightarrow> (\<And>d. f (f d) = f d)
     \<Longrightarrow> update_one q f (update_one q f ds) = update_one q f ds"
  by (induction ds) auto

lemma map_update_one: "(\<And>d. g (f d) = g d) \<Longrightarrow> map g (update_one q f ds) = map g ds"
  by (induction ds) auto

lemmas sample_people = user_s1_def user_s2_def user_tu1_def user_tu2_def user_m1_def
  user_a1_def teacher_t1_def teacher_t2_def school_1_def

lemma db1_value:
  "db1 = db0\<lparr> courses := [new_course (fresh ''c1'' ''p1'' 100) (enroll CODE ''s1'' ''t1'')],
              payments := [new_payment (fresh ''c1'' ''p1'' 100) (enroll CODE ''s1'' ''t1'')
                             school_1] \<rparr>"
  by (simp add: db1_def create_course_def db0_def sample_people enroll_def
      enrollment_rules_def insert_one_def)

lemma db2_value:
  "db2 = db1\<lparr> exams := [new_exam (fresh ''e1'' [] 200)
                           \<lparr> ec_course_id = ''c1'', ec_date = 5000, ec_status = SCHEDULED \<rparr>] \<rparr>"
  by (simp add: db2_def db1_value create_exam_def db0_def sample_people enroll_def
      new_course_def fresh_def insert_one_def)

section \<open>Recording a payment outcome\<close>

lemma update_payment_run:
  assumes pay: "find_one (\<lambda>p. p_id p = payment_id) (payments db) = Some payment"
      and crs: "find_one (\<lambda>c. c_id c = p_course_id payment) (courses db) = Some course"
      and per: "payment_permitted current_user course"
  shows "update_payment payment_id status current_user db =
      (Inr (payment\<lparr> p_status := status \<rparr>),
       db\<lparr> payments := update_one (\<lambda>p. p_id p = payment_id)
                          (\<lambda>p. p\<lparr> p_status := status \<rparr>) (payments db),
           courses := propagate_payment_status status course (courses db) \<rparr>)"
proof -
  have pid: "p_id payment = payment_id"
    using find_one_SomeD [OF pay] by simp
  have upd: "find_one (\<lambda>p. p_id p = payment_id)
               (update_one (\<lambda>p. p_id p = payment_id) (\<lambda>p. p\<lparr> p_status := status \<rparr>)
                  (payments db))
             = Some (payment\<lparr> p_status := status \<rparr>)"
    using find_one_update_one [OF pay, of "\<lambda>p. p\<lparr> p_status := status \<rparr>"] pid by simp
  have guard: "\<not> (u_role current_user \<noteq> ADMIN \<and> u_role current_user \<noteq> MANAGER \<and>
                  u_id current_user \<noteq> c_student_id course)"
    using per by (auto simp: payment_permitted_def)
  show ?thesis
    unfolding update_payment_def using pay crs guard upd by (simp add: Let_def)
qed

text \<open>
  C7. When a payment outcome is recorded by a permitted caller, the call returns the
  payment with its new status; if the new status is completed and the owning course is
  \<open>not_started\<close>, the course is \<open>in_progress\<close> afterwards; for every other new status,
  and for completed on a course that is not \<open>not_started\<close>, the courses are left as
  they were.
\<close>

theorem update_payment_propagation:
  assumes pay: "find_one (\<lambda>p. p_id p = payment_id) (payments db) = Some payment"
      and crs: "find_one (\<lambda>c. c_id c = p_course_id payment) (courses db) = Some course"
      and per: "payment_permitted current_user course"
  shows "fst (update_payment payment_id status current_user db)
           = Inr (payment\<lparr> p_status := status \<rparr>)
       \<and> (if status = PAYMENT_COMPLETED \<and> c_status course = NOT_STARTED
          then find_one (\<lambda>c. c_id c = p_course_id payment)
                 (courses (snd (update_payment payment_id status current_user db)))
               = Some (course\<lparr> c_status := IN_PROGRESS \<rparr>)
          else courses (snd (update_payment payment_id status current_user db)) = courses db)"
proof -
  have cid: "c_id course = p_course_id payment"
    using find_one_SomeD [OF crs] by simp
  have moved: "find_one (\<lambda>c. c_id c = p_course_id payment)
                 (update_one (\<lambda>c. c_id c = c_id course) (\<lambda>c. c\<lparr> c_status := IN_PROGRESS \<rparr>)
                    (courses db))
               = Some (course\<lparr> c_status := IN_PROGRESS \<rparr>)"
    using find_one_update_one [OF crs, of "\<lambda>c. c\<lparr> c_status := IN_PROGRESS \<rparr>"] cid by simp
  show ?thesis
    unfolding update_payment_run [OF pay crs per]
    using moved by (simp add: propagate_payment_status_def)
qed

theorem update_payment_propagation_witness:
  "course_status db1 ''c1'' = Some NOT_STARTED
   \<and> course_status (snd (update_payment ''p1'' PAYMENT_COMPLETED user_s1 db1)) ''c1''
       = Some IN_PROGRESS
   \<and> courses (snd (update_payment ''p1'' REFUNDED user_s1 db1)) = courses db1"
proof -
  let ?c = "new_course (fresh ''c1'' ''p1'' 100) (enroll CODE ''s1'' ''t1'')"
  let ?p = "new_payment (fresh ''c1'' ''p1'' 100) (enroll CODE ''s1'' ''t1'') school_1"
  have pay: "find_one (\<lambda>p. p_id p = ''p1'') (payments db1) = Some ?p"
    by (simp add: db1_value new_payment_def fresh_def)
  have crs: "find_one (\<lambda>c. c_id c = p_course_id ?p) (courses db1) = Some ?c"
    by (simp add: db1_value new_payment_def new_course_def fresh_def)
  have per: "payment_permitted user_s1 ?c"
    by (simp add: payment_permitted_def user_s1_def new_course_def enroll_def)
  have st: "c_status ?c = NOT_STARTED"
    by (simp add: new_course_def enroll_def)
  have pc: "p_course_id ?p = ''c1''"
    by (simp add: new_payment_def fresh_def)
  show ?thesis
    using update_payment_propagation [OF pay crs per, of PAYMENT_COMPLETED]
          update_payment_propagation [OF pay crs per, of REFUNDED] crs st pc
    by (simp add: course_status_def)
qed

section \<open>Recording an exam outcome\<close>

lemma staff_permitted_guards:
  assumes "staff_permitted current_user course db"
  shows "\<not> u_role current_user \<notin> set [MANAGER, TEACHER, ADMIN]"
    and "\<not> (u_role current_user = TEACHER \<and>
             (case find_one (\<lambda>t. t_user_id t = u_id current_user) (teachers db) of
                None \<Rightarrow> True
              | Some teacher_record \<Rightarrow> t_id teacher_record \<noteq> c_teacher_id course))"
  using assms by (auto simp: staff_permitted_def split: option.splits)

lemma update_exam_run:
  assumes ex: "find_one (\<lambda>e. e_id e = exam_id) (exams db) = Some exam"
      and crs: "find_one (\<lambda>c. c_id c = e_course_id exam) (courses db) = Some course"
      and per: "staff_permitted current_user course db"
  shows "update_exam exam_id status score feedback current_user db =
      (Inr (set_exam_fields status score feedback exam),
       db\<lparr> exams := update_one (\<lambda>e. e_id e = exam_id)
                       (set_exam_fields status score feedback) (exams db),
           courses := propagate_exam_status status course (courses db) \<rparr>)"
proof -
  have eid: "e_id exam = exam_id"
    using find_one_SomeD [OF ex] by simp
  have upd: "find_one (\<lambda>e. e_id e = exam_id)
               (update_one (\<lambda>e. e_id e = exam_id) (set_exam_fields status score feedback)
                  (exams db))
             = Some (set_exam_fields status score feedback exam)"
    using find_one_update_one [OF ex, of "set_exam_fields status score feedback"] eid
    by (simp add: set_exam_fields_def)
  show ?thesis
    unfolding update_exam_def
    using ex crs staff_permitted_guards [OF per] upd by (simp add: Let_def)
qed

lemma find_one_propagate_exam_status:
  assumes crs: "find_one (\<lambda>c. c_id c = cid) cs = Some course"
  shows "find_one (\<lambda>c. c_id c = cid) (propagate_exam_status status course cs)
         = Some (course\<lparr> c_status := exam_outcome status (c_status course) \<rparr>)"
proof -
  have cid: "c_id course = cid"
    using find_one_SomeD [OF crs] by simp
  show ?thesis
    using find_one_update_one [OF crs, of "\<lambda>c. c\<lparr> c_status := COMPLETED \<rparr>"]
          find_one_update_one [OF crs, of "\<lambda>c. c\<lparr> c_status := FAILED \<rparr>"] cid crs
    by (simp add: propagate_exam_status_def exam_outcome_def)
qed

lemma propagate_exam_status_twice:
  "c_id course' = c_id course \<Longrightarrow>
   propagate_exam_status status course' (propagate_exam_status status course cs)
     = propagate_exam_status status course cs"
  by (simp add: propagate_exam_status_def update_one_twice)

lemma set_exam_fields_keeps:
  "e_id (set_exam_fields status score feedback e) = e_id e"
  "e_course_id (set_exam_fields status score feedback e) = e_course_id e"
  by (simp_all add: set_exam_fields_def)

lemma set_exam_fields_twice:
  "set_exam_fields status score feedback (set_exam_fields status score feedback e)
     = set_exam_fields status score feedback e"
  by (simp add: set_exam_fields_def split: option.splits)

text \<open>After a recorded outcome, the exam, its course and the caller's permission are
  still there for the next recording.\<close>

lemma update_exam_again:
  fixes status :: ExamStatus and score :: "real option" and feedback :: "string option"
  assumes ex: "find_one (\<lambda>e. e_id e = exam_id) (exams db) = Some exam"
      and crs: "find_one (\<lambda>c. c_id c = e_course_id exam) (courses db) = Some course"
      and per: "staff_permitted current_user course db"
  shows "find_one (\<lambda>e. e_id e = exam_id)
           (exams (snd (update_exam exam_id status score feedback current_user db)))
         = Some (set_exam_fields status score feedback exam)"
    and "find_one (\<lambda>c. c_id c = e_course_id (set_exam_fields status score feedback exam))
           (courses (snd (update_exam exam_id status score feedback current_user db)))
         = Some (course\<lparr> c_status := exam_outcome status (c_status course) \<rparr>)"
    and "staff_permitted current_user
           (course\<lparr> c_status := exam_outcome status (c_status course) \<rparr>)
           (snd (update_exam exam_id status score feedback current_user db))"
proof -
  let ?db' = "snd (update_exam exam_id status score feedback current_user db)"
  let ?exam' = "set_exam_fields status score feedback exam"
  have eid: "e_id exam = exam_id"
    using find_one_SomeD [OF ex] by simp
  have db': "?db' = db\<lparr> exams := update_one (\<lambda>e. e_id e = exam_id)
                          (set_exam_fields status score feedback) (exams db),
                        courses := propagate_exam_status status course (courses db) \<rparr>"
    unfolding update_exam_run [OF ex crs per] by simp
  show "find_one (\<lambda>e. e_id e = exam_id) (exams ?db') = Some ?exam'"
    using find_one_update_one [OF ex, of "set_exam_fields status score feedback"] eid
    by (simp add: db' set_exam_fields_def)
  have same: "e_course_id ?exam' = e_course_id exam"
    by (simp add: set_exam_fields_def)
  show "find_one (\<lambda>c. c_id c = e_course_id ?exam') (courses ?db')
        = Some (course\<lparr> c_status := exam_outcome status (c_status course) \<rparr>)"
    using find_one_propagate_exam_status [OF crs] by (simp add: same db')
  show "staff_permitted current_user
          (course\<lparr> c_status := exam_outcome status (c_status course) \<rparr>) ?db'"
    using per by (auto simp: staff_permitted_def db' split: option.splits)
qed

text \<open>
  C6. When an exam outcome is recorded by a permitted caller, the call succeeds and the
  owning course is \<open>completed\<close> after passed and \<open>failed\<close> after failed, whatever its
  status was before; after scheduled the courses are as they were. Recording the same
  outcome again returns the same exam and leaves the same store, and any later
  recording succeeds and, when it is passed or failed, decides the course status.
\<close>

theorem update_exam_propagation:
  assumes ex: "find_one (\<lambda>e. e_id e = exam_id) (exams db) = Some exam"
      and crs: "find_one (\<lambda>c. c_id c = e_course_id exam) (courses db) = Some course"
      and per: "staff_permitted current_user course db"
  shows "fst (update_exam exam_id status score feedback current_user db)
           = Inr (set_exam_fields status score feedback exam)
       \<and> course_status (snd (update_exam exam_id status score feedback current_user db))
           (e_course_id exam)
           = Some (if status = PASSED then COMPLETED
                   else if status = EXAM_FAILED then FAILED else c_status course)
       \<and> (status = SCHEDULED \<longrightarrow>
            courses (snd (update_exam exam_id status score feedback current_user db))
              = courses db)
       \<and> update_exam exam_id status score feedback current_user
            (snd (update_exam exam_id status score feedback current_user db))
           = update_exam exam_id status score feedback current_user db
       \<and> (\<forall>status' score' feedback'.
            (\<exists>exam'. fst (update_exam exam_id status' score' feedback' current_user
                        (snd (update_exam exam_id status score feedback current_user db)))
                      = Inr exam')
            \<and> (status' \<noteq> SCHEDULED \<longrightarrow>
                 course_status
                   (snd (update_exam exam_id status' score' feedback' current_user
                          (snd (update_exam exam_id status score feedback current_user db))))
                   (e_course_id exam)
                 = Some (if status' = PASSED then COMPLETED else FAILED)))"
proof -
  let ?r = "update_exam exam_id status score feedback current_user db"
  let ?exam' = "set_exam_fields status score feedback exam"
  let ?course' = "course\<lparr> c_status := exam_outcome status (c_status course) \<rparr>"
  note run = update_exam_run [OF ex crs per]
  note again = update_exam_again [OF ex crs per, of status score feedback]
  have same: "e_course_id ?exam' = e_course_id exam"
    by (simp add: set_exam_fields_def)
  have first: "fst ?r = Inr ?exam'"
    by (simp add: run)
  have status_after: "course_status (snd ?r) (e_course_id exam)
      = Some (if status = PASSED then COMPLETED
              else if status = EXAM_FAILED then FAILED else c_status course)"
    using again(2) by (simp add: course_status_def same exam_outcome_def)
  have untouched: "status = SCHEDULED \<longrightarrow> courses (snd ?r) = courses db"
    by (simp add: run propagate_exam_status_def)
  have repeat: "update_exam exam_id status score feedback current_user (snd ?r) = ?r"
  proof -
    have "update_exam exam_id status score feedback current_user (snd ?r) =
        (Inr (set_exam_fields status score feedback ?exam'),
         (snd ?r)\<lparr> exams := update_one (\<lambda>e. e_id e = exam_id)
                       (set_exam_fields status score feedback) (exams (snd ?r)),
           courses := propagate_exam_status status ?course' (courses (snd ?r)) \<rparr>)"
      by (rule update_exam_run [OF again])
    also have "\<dots> = ?r"
      by (simp add: run set_exam_fields_twice propagate_exam_status_twice update_one_twice
          set_exam_fields_keeps)
    finally show ?thesis .
  qed
  have later: "(\<exists>exam''. fst (update_exam exam_id status' score' feedback' current_user (snd ?r))
                         = Inr exam'')
      \<and> (status' \<noteq> SCHEDULED \<longrightarrow>
           course_status (snd (update_exam exam_id status' score' feedback' current_user
                                 (snd ?r))) (e_course_id exam)
           = Some (if status' = PASSED then COMPLETED else FAILED))"
    for status' score' feedback'
  proof -
    note run2 = update_exam_run [OF again, of status' score' feedback']
    note again2 = update_exam_again [OF again, of status' score' feedback']
    have "course_status (snd (update_exam exam_id status' score' feedback' current_user
                                 (snd ?r))) (e_course_id exam)
          = Some (exam_outcome status' (exam_outcome status (c_status course)))"
      using again2(2) by (simp add: course_status_def set_exam_fields_def)
    moreover have "\<exists>exam''. fst (update_exam exam_id status' score' feedback' current_user
                                   (snd ?r)) = Inr exam''"
      by (simp add: run2)
    ultimately show ?thesis
      by (cases status') (simp_all add: exam_outcome_def)
  qed
  show ?thesis
    using first status_after untouched repeat later by blast
qed

theorem update_exam_propagation_witness:
  "course_status db2 ''c1'' = Some NOT_STARTED
   \<and> course_status (snd (update_exam ''e1'' PASSED (Some 18) None user_tu1 db2)) ''c1''
       = Some COMPLETED
   \<and> update_exam ''e1'' PASSED (Some 18) None user_tu1
         (snd (update_exam ''e1'' PASSED (Some 18) None user_tu1 db2))
       = update_exam ''e1'' PASSED (Some 18) None user_tu1 db2"
proof -
  let ?c = "new_course (fresh ''c1'' ''p1'' 100) (enroll CODE ''s1'' ''t1'')"
  let ?e = "new_exam (fresh ''e1'' [] 200)
              \<lparr> ec_course_id = ''c1'', ec_date = 5000, ec_status = SCHEDULED \<rparr>"
  have ex: "find_one (\<lambda>e. e_id e = ''e1'') (exams db2) = Some ?e"
    by (simp add: db2_value new_exam_def fresh_def)
  have crs: "find_one (\<lambda>c. c_id c = e_course_id ?e) (courses db2) = Some ?c"
    by (simp add: db2_value db1_value new_exam_def new_course_def fresh_def)
  have per: "staff_permitted user_tu1 ?c db2"
    by (simp add: staff_permitted_def db2_value db1_value db0_def sample_people
        new_course_def enroll_def)
  have ec: "e_course_id ?e = ''c1''"
    by (simp add: new_exam_def)
  have st: "c_status ?c = NOT_STARTED"
    by (simp add: new_course_def enroll_def)
  show ?thesis
    using update_exam_propagation [OF ex crs per, of PASSED "Some 18" None] crs st ec
    by (simp add: course_status_def)
qed

section \<open>Enrollment\<close>

lemma find_one_Some_iff: "(\<exists>d. find_one q ds = Some d) \<longleftrightarrow> (\<exists>d \<in> set ds. q d)"
  by (induction ds) auto

lemma find_completed_iff:
  "find_one (\<lambda>c. c_student_id c = student \<and> c_type c = ty \<and> c_status c = COMPLETED)
     (courses db) = None \<longleftrightarrow> \<not> has_completed db student ty"
  by (simp add: find_one_None_iff has_completed_def)

lemma find_live_iff:
  "find_one (\<lambda>c. c_student_id c = student \<and> c_type c = ty \<and> c_status c \<noteq> FAILED)
     (courses db) = None \<longleftrightarrow> live_courses db student ty = []"
  by (simp add: find_one_None_iff live_courses_def filter_empty_conv)

text \<open>The type-specific rules, read off the store.\<close>

lemma enrollment_rules_value:
  "enrollment_rules course db =
     (if \<not> prerequisite_met db (cc_student_id course) (cc_type course)
      then Some (if cc_type course = PARKING then PrerequisiteNotMet_PARKING
                 else PrerequisiteNotMet_ROAD)
      else if live_courses db (cc_student_id course) (cc_type course) \<noteq> []
      then Some (DuplicateEnrollment (cc_type course))
      else None)"
proof (cases "cc_type course")
  case CODE
  then show ?thesis
    using find_live_iff [of "cc_student_id course" CODE db]
    by (auto simp: enrollment_rules_def split: option.splits)
next
  case PARKING
  then show ?thesis
    using find_live_iff [of "cc_student_id course" PARKING db]
          find_completed_iff [of "cc_student_id course" CODE db]
    by (auto simp: enrollment_rules_def split: option.splits)
next
  case ROAD
  then show ?thesis
    using find_live_iff [of "cc_student_id course" ROAD db]
          find_completed_iff [of "cc_student_id course" PARKING db]
    by (auto simp: enrollment_rules_def split: option.splits)
qed

lemma create_course_checked:
  assumes "enrollment_checks course db"
  shows "\<exists>school. find_one (\<lambda>s. s_id s = cc_driving_school_id course) (driving_schools db)
                    = Some school
           \<and> create_course fr course current_user db =
               (case enrollment_rules course db of
                  Some e \<Rightarrow> (Inl e, db)
                | None \<Rightarrow>
                    (Inr (new_course fr course),
                     db\<lparr> courses := insert_one (new_course fr course) (courses db),
                         payments := insert_one (new_payment fr course school)
                                       (payments db) \<rparr>))"
  using assms
  by (auto simp: enrollment_checks_def create_course_def split: option.splits)

lemma create_course_unchecked:
  assumes "\<not> enrollment_checks course db"
  shows "\<exists>e. create_course fr course current_user db = (Inl e, db)"
  using assms
  by (auto simp: enrollment_checks_def create_course_def split: option.splits)

lemma create_course_rejected:
  "fst (create_course fr course current_user db) = Inl e
     \<Longrightarrow> snd (create_course fr course current_user db) = db"
  by (auto simp: create_course_def split: option.splits if_splits)

lemma create_course_accepted:
  "fst (create_course fr course current_user db) = Inr c \<longleftrightarrow>
     enrollment_checks course db \<and> enrollment_rules course db = None \<and> c = new_course fr course"
proof (cases "enrollment_checks course db")
  case True
  from create_course_checked [OF True, of fr current_user]
  show ?thesis using True by (auto split: option.splits)
next
  case False
  from create_course_unchecked [OF False, of fr current_user]
  show ?thesis using False by auto
qed

section \<open>The prerequisite chain\<close>

lemma db_passed_courses:
  "courses db_passed =
     [(new_course (fresh ''c1'' ''p1'' 100) (enroll CODE ''s1'' ''t1''))\<lparr> c_status := COMPLETED \<rparr>]"
  by (simp add: db_passed_def update_exam_def db2_value db1_value db0_def sample_people
      new_exam_def new_course_def fresh_def enroll_def propagate_exam_status_def Let_def
      set_exam_fields_def)

lemma db_passed_people:
  "users db_passed = users db0 \<and> teachers db_passed = teachers db0
   \<and> driving_schools db_passed = driving_schools db0"
  by (simp add: db_passed_def update_exam_def db2_value db1_value db0_def sample_people
      new_exam_def new_course_def fresh_def enroll_def propagate_exam_status_def Let_def
      set_exam_fields_def)

lemma sample_checks:
  "users db = users db0 \<Longrightarrow> teachers db = teachers db0
     \<Longrightarrow> driving_schools db = driving_schools db0
     \<Longrightarrow> enrollment_checks (enroll ty ''s1'' ''t1'') db"
  by (simp add: enrollment_checks_def enroll_def db0_def sample_people)

text \<open>
  C2. A parking enrollment that succeeds has a completed code course of the student
  behind it, and a road enrollment a completed parking course; when the references and
  the gender check pass and that course is missing, the call fails with
  PrerequisiteNotMet and changes nothing. A code enrollment never fails with
  PrerequisiteNotMet, and succeeds for a student with no live code course whatever other
  courses exist.
\<close>

theorem enrollment_prerequisite_chain:
  "(fst (create_course fr course current_user db) = Inr c \<and> cc_type course = PARKING
      \<longrightarrow> has_completed db (cc_student_id course) CODE)
   \<and> (fst (create_course fr course current_user db) = Inr c \<and> cc_type course = ROAD
      \<longrightarrow> has_completed db (cc_student_id course) PARKING)
   \<and> (enrollment_checks course db \<and> cc_type course = PARKING
        \<and> \<not> has_completed db (cc_student_id course) CODE
      \<longrightarrow> create_course fr course current_user db = (Inl PrerequisiteNotMet_PARKING, db))
   \<and> (enrollment_checks course db \<and> cc_type course = ROAD
        \<and> \<not> has_completed db (cc_student_id course) PARKING
      \<longrightarrow> create_course fr course current_user db = (Inl PrerequisiteNotMet_ROAD, db))
   \<and> (cc_type course = CODE
      \<longrightarrow> (\<forall>e. fst (create_course fr course current_user db) = Inl e
                \<longrightarrow> \<not> is_PrerequisiteNotMet e)
          \<and> (enrollment_checks course db \<and> live_courses db (cc_student_id course) CODE = []
             \<longrightarrow> fst (create_course fr course current_user db) = Inr (new_course fr course)))"
proof -
  have only_if: "prerequisite_met db (cc_student_id course) (cc_type course)"
    if "fst (create_course fr course current_user db) = Inr c"
    using that unfolding create_course_accepted enrollment_rules_value
    by (simp split: if_splits)
  have missing: "create_course fr course current_user db =
      (Inl (if cc_type course = PARKING then PrerequisiteNotMet_PARKING
            else PrerequisiteNotMet_ROAD), db)"
    if "enrollment_checks course db"
       "\<not> prerequisite_met db (cc_student_id course) (cc_type course)"
    using create_course_checked [OF that(1), of fr current_user] that(2)
    by (auto simp: enrollment_rules_value)
  have code_error: "\<not> is_PrerequisiteNotMet e"
    if "cc_type course = CODE" "fst (create_course fr course current_user db) = Inl e" for e
    using that
    by (auto simp: create_course_def enrollment_rules_def is_PrerequisiteNotMet_def
        split: option.splits if_splits)
  have code_free: "fst (create_course fr course current_user db) = Inr (new_course fr course)"
    if "cc_type course = CODE" "enrollment_checks course db"
       "live_courses db (cc_student_id course) CODE = []"
    using that by (simp add: create_course_accepted enrollment_rules_value)
  show ?thesis
    using only_if missing code_error code_free by auto
qed

theorem enrollment_prerequisite_chain_witness:
  "fst (create_course (fresh ''c3'' ''p3'' 300) (enroll PARKING ''s1'' ''t1'') user_s1 db_passed)
     = Inr (new_course (fresh ''c3'' ''p3'' 300) (enroll PARKING ''s1'' ''t1''))
   \<and> has_completed db_passed ''s1'' CODE
   \<and> \<not> has_completed db1 ''s1'' CODE
   \<and> create_course (fresh ''c3'' ''p3'' 300) (enroll PARKING ''s1'' ''t1'') user_s1 db1
       = (Inl PrerequisiteNotMet_PARKING, db1)"
proof -
  let ?fr = "fresh ''c3'' ''p3'' 300"
  let ?rq = "enroll PARKING ''s1'' ''t1''"
  have chk: "enrollment_checks ?rq db_passed"
    using db_passed_people by (simp add: sample_checks)
  have rules: "enrollment_rules ?rq db_passed = None"
    by (simp add: enrollment_rules_def db_passed_courses new_course_def enroll_def)
  have ok: "fst (create_course ?fr ?rq user_s1 db_passed) = Inr (new_course ?fr ?rq)"
    using chk rules by (simp add: create_course_accepted)
  have ty: "cc_type ?rq = PARKING" and sid: "cc_student_id ?rq = ''s1''"
    by (simp_all add: enroll_def)
  have chk1: "enrollment_checks ?rq db1"
    by (simp add: sample_checks db1_value)
  have none1: "\<not> has_completed db1 ''s1'' CODE"
    by (simp add: has_completed_def db1_value new_course_def enroll_def)
  show ?thesis
    using enrollment_prerequisite_chain [of ?fr ?rq user_s1 db_passed "new_course ?fr ?rq"]
          enrollment_prerequisite_chain [of ?fr ?rq user_s1 db1]
          ok ty sid chk1 none1
    by simp
qed

section \<open>The gender check\<close>

text \<open>
  C8, as stated, fails: with a teacher whose user is female, a male student and a school
  id that does not resolve, the call fails on the school (line 435), not on the genders.
\<close>

theorem gender_mismatch_counterexample:
  "u_gender user_tu2 \<noteq> u_gender user_s1
   \<and> create_course (fresh ''c1'' ''p1'' 100)
        ((enroll CODE ''s1'' ''t2'')\<lparr> cc_driving_school_id := ''closed'' \<rparr>) user_s1 db0
       = (Inl InvalidSchool, db0)
   \<and> InvalidSchool \<noteq> GenderMismatch"
  by (simp add: create_course_def db0_def sample_people enroll_def)

text \<open>
  C8, amended. When the student (with the student role), the teacher, the school and the
  teacher's user all resolve, the call fails with GenderMismatch and changes nothing
  whenever the two genders differ, whatever the course type, the stored courses and the
  caller; when the genders are equal, \<open>other\<close> included, it never fails with
  GenderMismatch.
\<close>

theorem gender_mismatch_rejected:
  assumes "find_one (\<lambda>u. u_id u = cc_student_id course) (users db) = Some student"
      and "u_role student = STUDENT"
      and "find_one (\<lambda>t. t_id t = cc_teacher_id course) (teachers db) = Some teacher"
      and "find_one (\<lambda>s. s_id s = cc_driving_school_id course) (driving_schools db)
             = Some school"
      and "find_one (\<lambda>u. u_id u = t_user_id teacher) (users db) = Some teacher_user"
  shows "(u_gender teacher_user \<noteq> u_gender student
            \<longrightarrow> create_course fr course current_user db = (Inl GenderMismatch, db))
       \<and> (u_gender teacher_user = u_gender student
            \<longrightarrow> fst (create_course fr course current_user db) \<noteq> Inl GenderMismatch)"
proof (intro conjI impI)
  assume "u_gender teacher_user \<noteq> u_gender student"
  then show "create_course fr course current_user db = (Inl GenderMismatch, db)"
    using assms by (simp add: create_course_def)
next
  assume "u_gender teacher_user = u_gender student"
  then have "create_course fr course current_user db =
      (case enrollment_rules course db of
         Some e \<Rightarrow> (Inl e, db)
       | None \<Rightarrow>
           (Inr (new_course fr course),
            db\<lparr> courses := insert_one (new_course fr course) (courses db),
                payments := insert_one (new_payment fr course school) (payments db) \<rparr>))"
    using assms by (simp add: create_course_def)
  moreover have "enrollment_rules course db \<noteq> Some GenderMismatch"
    by (simp add: enrollment_rules_def split: option.splits)
  ultimately show "fst (create_course fr course current_user db) \<noteq> Inl GenderMismatch"
    by (auto split: option.splits)
qed

theorem gender_mismatch_rejected_witness:
  "create_course (fresh ''c1'' ''p1'' 100) (enroll CODE ''s3'' ''t1'') user_a1 db_other
     = (Inl GenderMismatch, db_other)
   \<and> fst (create_course (fresh ''c1'' ''p1'' 100) (enroll CODE ''s1'' ''t1'') user_a1 db_other)
       \<noteq> Inl GenderMismatch"
proof -
  let ?s3 = "\<lparr> u_id = ''s3'', u_role = STUDENT, u_gender = OTHER \<rparr>"
  have s3: "find_one (\<lambda>u. u_id u = cc_student_id (enroll CODE ''s3'' ''t1'')) (users db_other)
            = Some ?s3"
    by (simp add: db_other_def enroll_def)
  have s1: "find_one (\<lambda>u. u_id u = cc_student_id (enroll CODE ''s1'' ''t1'')) (users db_other)
            = Some user_s1"
    by (simp add: db_other_def enroll_def db0_def sample_people)
  have t: "find_one (\<lambda>t. t_id t = cc_teacher_id (enroll CODE s ''t1'')) (teachers db_other)
           = Some teacher_t1" for s
    by (simp add: db_other_def enroll_def db0_def sample_people)
  have sch: "find_one (\<lambda>d. s_id d = cc_driving_school_id (enroll CODE s ''t1''))
               (driving_schools db_other) = Some school_1" for s
    by (simp add: db_other_def enroll_def db0_def sample_people)
  have tu: "find_one (\<lambda>u. u_id u = t_user_id teacher_t1) (users db_other) = Some user_tu1"
    by (simp add: db_other_def db0_def sample_people)
  have roles: "u_role ?s3 = STUDENT" "u_role user_s1 = STUDENT"
    by (simp_all add: user_s1_def)
  show ?thesis
    using gender_mismatch_rejected [OF s3 roles(1) t sch tu]
          gender_mismatch_rejected [OF s1 roles(2) t sch tu]
    by (simp add: sample_people)
qed

section \<open>One live course per student and type\<close>

lemmas sample_run = update_exam_def create_course_def db2_value db1_value db0_def
  sample_people new_exam_def new_course_def new_payment_def fresh_def enroll_def
  propagate_exam_status_def set_exam_fields_def enrollment_rules_def insert_one_def Let_def

lemma db_failed_value:
  "db_failed = db2\<lparr>
       exams := [(new_exam (fresh ''e1'' [] 200)
                   \<lparr> ec_course_id = ''c1'', ec_date = 5000, ec_status = SCHEDULED \<rparr>)
                 \<lparr> e_status := EXAM_FAILED \<rparr>],
       courses := [(new_course (fresh ''c1'' ''p1'' 100) (enroll CODE ''s1'' ''t1''))
                   \<lparr> c_status := FAILED \<rparr>] \<rparr>"
  by (simp add: db_failed_def sample_run)

lemma db_retry_value:
  "db_retry = db_failed\<lparr>
       courses := [(new_course (fresh ''c1'' ''p1'' 100) (enroll CODE ''s1'' ''t1''))
                   \<lparr> c_status := FAILED \<rparr>,
                   new_course (fresh ''c2'' ''p2'' 300) (enroll CODE ''s1'' ''t1'')],
       payments := [new_payment (fresh ''c1'' ''p1'' 100) (enroll CODE ''s1'' ''t1'') school_1,
                    new_payment (fresh ''c2'' ''p2'' 300) (enroll CODE ''s1'' ''t1'') school_1] \<rparr>"
  by (simp add: db_retry_def db_failed_value sample_run)

lemma db_revived_courses:
  "courses db_revived =
     [(new_course (fresh ''c1'' ''p1'' 100) (enroll CODE ''s1'' ''t1''))
        \<lparr> c_status := COMPLETED \<rparr>,
      new_course (fresh ''c2'' ''p2'' 300) (enroll CODE ''s1'' ''t1'')]"
  by (simp add: db_revived_def db_retry_value db_failed_value sample_run)

text \<open>
  C1, as stated, fails: student s1 enrolls in CODE, the exam is recorded as failed, s1
  enrolls in CODE again, and the first exam is then recorded as passed (\<open>update_exam\<close>
  writes the course status whatever it was). Two CODE courses of s1 are now not failed.
\<close>

theorem one_live_course_counterexample:
  "fst (create_course (fresh ''c2'' ''p2'' 300) (enroll CODE ''s1'' ''t1'') user_s1 db_failed)
     = Inr (new_course (fresh ''c2'' ''p2'' 300) (enroll CODE ''s1'' ''t1''))
   \<and> fst (update_exam ''e1'' PASSED (Some 18) None user_tu1 db_retry)
     = Inr ((new_exam (fresh ''e1'' [] 200)
               \<lparr> ec_course_id = ''c1'', ec_date = 5000, ec_status = SCHEDULED \<rparr>)
            \<lparr> e_status := PASSED, e_score := Some 18 \<rparr>)
   \<and> length (live_courses db_revived ''s1'' CODE) = 2"
proof -
  have "fst (create_course (fresh ''c2'' ''p2'' 300) (enroll CODE ''s1'' ''t1'') user_s1
               db_failed)
        = Inr (new_course (fresh ''c2'' ''p2'' 300) (enroll CODE ''s1'' ''t1''))"
    by (simp add: db_failed_value sample_run)
  moreover have "fst (update_exam ''e1'' PASSED (Some 18) None user_tu1 db_retry)
     = Inr ((new_exam (fresh ''e1'' [] 200)
               \<lparr> ec_course_id = ''c1'', ec_date = 5000, ec_status = SCHEDULED \<rparr>)
            \<lparr> e_status := PASSED, e_score := Some 18 \<rparr>)"
    by (simp add: db_retry_value db_failed_value sample_run)
  moreover have "length (live_courses db_revived ''s1'' CODE) = 2"
    by (simp add: live_courses_def db_revived_courses new_course_def enroll_def)
  ultimately show ?thesis by simp
qed

lemma live_courses_insert:
  "live_courses (db\<lparr> courses := insert_one c (courses db), payments := ps \<rparr>) student ty =
     live_courses db student ty @
     (if c_student_id c = student \<and> c_type c = ty \<and> c_status c \<noteq> FAILED then [c] else [])"
  by (simp add: live_courses_def insert_one_def)

text \<open>
  C1, amended. \<open>create_course\<close> never adds a second live course: when the student has a
  course of the requested type that is not failed, the call fails and changes nothing,
  with DuplicateEnrollment when the earlier checks and the prerequisite pass; when the
  student has none (none at all, or failed ones only) and the earlier checks and the
  prerequisite pass, the call succeeds. So \<open>create_course\<close> keeps "at most one course
  that is not failed per student and type"; \<open>update_exam\<close> does not.
\<close>

theorem enrollment_keeps_one_live_course:
  "(live_courses db (cc_student_id course) (cc_type course) \<noteq> []
      \<longrightarrow> (\<exists>e. create_course fr course current_user db = (Inl e, db)))
   \<and> (enrollment_checks course db
        \<and> prerequisite_met db (cc_student_id course) (cc_type course)
        \<and> live_courses db (cc_student_id course) (cc_type course) \<noteq> []
      \<longrightarrow> create_course fr course current_user db
            = (Inl (DuplicateEnrollment (cc_type course)), db))
   \<and> (enrollment_checks course db
        \<and> prerequisite_met db (cc_student_id course) (cc_type course)
        \<and> live_courses db (cc_student_id course) (cc_type course) = []
      \<longrightarrow> fst (create_course fr course current_user db) = Inr (new_course fr course))
   \<and> ((\<forall>student ty. length (live_courses db student ty) \<le> 1)
      \<longrightarrow> (\<forall>student ty.
            length (live_courses (snd (create_course fr course current_user db)) student ty)
              \<le> 1))"
proof -
  let ?r = "create_course fr course current_user db"
  let ?live = "live_courses db (cc_student_id course) (cc_type course)"
  have blocked: "\<exists>e. ?r = (Inl e, db)" if "?live \<noteq> []"
  proof (cases "enrollment_checks course db")
    case True
    from create_course_checked [OF True, of fr current_user] that
    show ?thesis by (auto simp: enrollment_rules_value)
  next
    case False
    then show ?thesis by (rule create_course_unchecked)
  qed
  have duplicate: "?r = (Inl (DuplicateEnrollment (cc_type course)), db)"
    if "enrollment_checks course db"
       "prerequisite_met db (cc_student_id course) (cc_type course)" "?live \<noteq> []"
    using create_course_checked [OF that(1), of fr current_user] that(2,3)
    by (auto simp: enrollment_rules_value)
  have permitted: "fst ?r = Inr (new_course fr course)"
    if "enrollment_checks course db"
       "prerequisite_met db (cc_student_id course) (cc_type course)" "?live = []"
    using that by (simp add: create_course_accepted enrollment_rules_value)
  have kept: "length (live_courses (snd ?r) student ty) \<le> 1"
    if inv: "\<forall>student ty. length (live_courses db student ty) \<le> 1" for student ty
  proof (cases "fst ?r")
    case (Inl e)
    then show ?thesis using inv by (simp add: create_course_rejected)
  next
    case (Inr c)
    then have chk: "enrollment_checks course db" and free: "?live = []"
      by (auto simp: create_course_accepted enrollment_rules_value split: if_splits)
    from create_course_checked [OF chk, of fr current_user] free Inr
    obtain school where
      "snd ?r = db\<lparr> courses := insert_one (new_course fr course) (courses db),
                     payments := insert_one (new_payment fr course school) (payments db) \<rparr>"
      by (auto split: option.splits)
    then show ?thesis
      using inv free by (auto simp: live_courses_insert new_course_def)
  qed
  show ?thesis
    using blocked duplicate permitted kept by blast
qed

theorem enrollment_keeps_one_live_course_witness:
  "live_courses db1 ''s1'' CODE \<noteq> []
   \<and> create_course (fresh ''c2'' ''p2'' 300) (enroll CODE ''s1'' ''t1'') user_s1 db1
       = (Inl DuplicateEnrollment_CODE, db1)
   \<and> live_courses db_failed ''s1'' CODE = []
   \<and> fst (create_course (fresh ''c2'' ''p2'' 300) (enroll CODE ''s1'' ''t1'') user_s1 db_failed)
       = Inr (new_course (fresh ''c2'' ''p2'' 300) (enroll CODE ''s1'' ''t1''))
   \<and> length (live_courses db_retry ''s1'' CODE) \<le> 1"
proof -
  let ?fr = "fresh ''c2'' ''p2'' 300"
  let ?rq = "enroll CODE ''s1'' ''t1''"
  have rq: "cc_student_id ?rq = ''s1''" "cc_type ?rq = CODE"
    by (simp_all add: enroll_def)
  have chk1: "enrollment_checks ?rq db1"
    by (simp add: sample_checks db1_value)
  have live1: "live_courses db1 ''s1'' CODE \<noteq> []"
    by (simp add: live_courses_def db1_value new_course_def enroll_def)
  have chkf: "enrollment_checks ?rq db_failed"
    by (simp add: sample_checks db_failed_value db2_value db1_value)
  have livef: "live_courses db_failed student ty = []" for student ty
    by (simp add: live_courses_def db_failed_value)
  have invf: "\<forall>student ty. length (live_courses db_failed student ty) \<le> 1"
    by (simp add: livef)
  show ?thesis
    using enrollment_keeps_one_live_course [of db1 ?rq ?fr user_s1]
          enrollment_keeps_one_live_course [of db_failed ?rq ?fr user_s1]
          rq chk1 live1 chkf livef [of "''s1''" CODE] invf
    by (simp add: db_retry_def)
qed

section \<open>Who may call what\<close>

text \<open>
  C9, as stated, fails for enrollment: \<open>create_course\<close> has no check on the caller. A
  student enrolling another student, and a teacher who is not the course's teacher, both
  succeed.
\<close>

theorem enrollment_gate_counterexample:
  "fst (create_course (fresh ''c1'' ''p1'' 100) (enroll CODE ''s1'' ''t1'') user_s2 db0)
     = Inr (new_course (fresh ''c1'' ''p1'' 100) (enroll CODE ''s1'' ''t1''))
   \<and> fst (create_course (fresh ''c1'' ''p1'' 100) (enroll CODE ''s1'' ''t1'') user_tu2 db0)
     = Inr (new_course (fresh ''c1'' ''p1'' 100) (enroll CODE ''s1'' ''t1''))"
  by (simp add: create_course_def db0_def sample_people enroll_def enrollment_rules_def)

lemma create_schedule_forbidden:
  assumes "find_one (\<lambda>c. c_id c = rq_course_id schedule) (courses db) = Some course"
      and "find_one (\<lambda>t. t_id t = c_teacher_id course) (teachers db) = Some teacher"
      and "\<not> staff_permitted current_user course db"
  shows "\<exists>e. create_schedule fr schedule current_user db = (Inl e, db) \<and> is_Forbidden e"
  using assms
  by (cases "u_role current_user")
     (auto simp: create_schedule_def staff_permitted_def split: option.splits)

lemma create_schedule_permitted:
  assumes "fst (create_schedule fr schedule current_user db) = Inr s"
  shows "\<exists>course. find_one (\<lambda>c. c_id c = rq_course_id schedule) (courses db) = Some course
                  \<and> staff_permitted current_user course db"
  using assms
  by (cases "u_role current_user")
     (auto simp: create_schedule_def staff_permitted_def split: option.splits if_splits)

lemma update_exam_refused:
  assumes "find_one (\<lambda>e. e_id e = exam_id) (exams db) = Some exam"
      and "find_one (\<lambda>c. c_id c = e_course_id exam) (courses db) = Some course"
      and "\<not> staff_permitted current_user course db"
  shows "update_exam exam_id status score feedback current_user db = (Inl AttributeError, db)"
  using assms
  by (cases "u_role current_user")
     (auto simp: update_exam_def staff_permitted_def split: option.splits)

lemma update_exam_permitted:
  assumes "fst (update_exam exam_id status score feedback current_user db) = Inr x"
  shows "\<exists>exam course. find_one (\<lambda>e. e_id e = exam_id) (exams db) = Some exam
           \<and> find_one (\<lambda>c. c_id c = e_course_id exam) (courses db) = Some course
           \<and> staff_permitted current_user course db"
proof (cases "find_one (\<lambda>e. e_id e = exam_id) (exams db)")
  case None
  with assms show ?thesis
    by (simp add: update_exam_def split: if_splits)
next
  case exam: (Some exam)
  show ?thesis
  proof (cases "find_one (\<lambda>c. c_id c = e_course_id exam) (courses db)")
    case None
    with assms exam show ?thesis
      by (simp add: update_exam_def split: if_splits)
  next
    case (Some course)
    have "staff_permitted current_user course db"
    proof (rule ccontr)
      assume "\<not> staff_permitted current_user course db"
      from update_exam_refused [OF exam Some this, of status score feedback] assms
      show False by simp
    qed
    with exam Some show ?thesis by blast
  qed
qed

lemma update_payment_refused:
  assumes "find_one (\<lambda>p. p_id p = payment_id) (payments db) = Some payment"
      and "find_one (\<lambda>c. c_id c = p_course_id payment) (courses db) = Some course"
      and "\<not> payment_permitted current_user course"
  shows "update_payment payment_id pstatus current_user db = (Inl AttributeError, db)"
  using assms by (auto simp: update_payment_def payment_permitted_def)

lemma update_payment_permitted:
  assumes "fst (update_payment payment_id pstatus current_user db) = Inr x"
  shows "\<exists>payment course. find_one (\<lambda>p. p_id p = payment_id) (payments db) = Some payment
           \<and> find_one (\<lambda>c. c_id c = p_course_id payment) (courses db) = Some course
           \<and> payment_permitted current_user course"
proof (cases "find_one (\<lambda>p. p_id p = payment_id) (payments db)")
  case None
  with assms show ?thesis
    by (simp add: update_payment_def)
next
  case payment: (Some payment)
  show ?thesis
  proof (cases "find_one (\<lambda>c. c_id c = p_course_id payment) (courses db)")
    case None
    with assms payment show ?thesis
      by (simp add: update_payment_def)
  next
    case (Some course)
    have "payment_permitted current_user course"
    proof (rule ccontr)
      assume "\<not> payment_permitted current_user course"
      from update_payment_refused [OF payment Some this, of pstatus] assms
      show False by simp
    qed
    with payment Some show ?thesis by blast
  qed
qed

text \<open>
  What a caller refused by \<open>update_exam\<close> or \<open>update_payment\<close> gets is not an
  \<open>HTTPException\<close>: the \<open>raise\<close> itself fails on the hidden module \<open>status\<close>, for a
  caller with the student role as for a teacher of another course.
\<close>

lemma update_refusal_is_unhandled:
  "update_exam ''e1'' PASSED None None user_s2 db2 = (Inl AttributeError, db2)
   \<and> update_exam ''e1'' PASSED None None user_tu2 db2 = (Inl AttributeError, db2)
   \<and> update_payment ''p1'' PAYMENT_COMPLETED user_tu2 db2 = (Inl AttributeError, db2)
   \<and> \<not> is_Forbidden AttributeError"
  by (simp add: update_exam_def update_payment_def db2_value db1_value db0_def sample_people
      new_exam_def new_course_def new_payment_def fresh_def enroll_def)

text \<open>
  C9, amended. Booking a slot is gated with Forbidden: a caller with the student role is
  refused with Forbidden, and so is, when the course and its teacher resolve, every
  caller who is neither a manager, an admin nor the course's own teacher; a refused call
  changes nothing, and a slot is booked only for a permitted caller. Recording an exam
  outcome goes through only for a manager, an admin or the course's own teacher, and
  recording a payment outcome only for a manager, an admin or the course's student: for
  a caller with the student role (exam), and for every other caller once the exam or
  the payment and its course resolve, the call fails and changes nothing. Enrollment is
  not gated: the outcome of \<open>create_course\<close> is the same for every caller.
\<close>

theorem operations_role_gated:
  "create_course fr request current_user db = create_course fr request other_user db
   \<and> (u_role current_user = STUDENT
      \<longrightarrow> (\<exists>e. create_schedule fr schedule current_user db = (Inl e, db) \<and> is_Forbidden e)
        \<and> (\<exists>e. update_exam exam_id status score feedback current_user db = (Inl e, db)))
   \<and> (find_one (\<lambda>c. c_id c = rq_course_id schedule) (courses db) = Some course
        \<and> find_one (\<lambda>t. t_id t = c_teacher_id course) (teachers db) = Some teacher
        \<and> \<not> staff_permitted current_user course db
      \<longrightarrow> (\<exists>e. create_schedule fr schedule current_user db = (Inl e, db) \<and> is_Forbidden e))
   \<and> (fst (create_schedule fr schedule current_user db) = Inr s
      \<longrightarrow> (\<exists>c. find_one (\<lambda>c. c_id c = rq_course_id schedule) (courses db) = Some c
               \<and> staff_permitted current_user c db))
   \<and> (find_one (\<lambda>e. e_id e = exam_id) (exams db) = Some exam
        \<and> find_one (\<lambda>c. c_id c = e_course_id exam) (courses db) = Some course'
        \<and> \<not> staff_permitted current_user course' db
      \<longrightarrow> (\<exists>e. update_exam exam_id status score feedback current_user db = (Inl e, db)))
   \<and> (fst (update_exam exam_id status score feedback current_user db) = Inr x
      \<longrightarrow> (\<exists>e c. find_one (\<lambda>e. e_id e = exam_id) (exams db) = Some e
               \<and> find_one (\<lambda>c. c_id c = e_course_id e) (courses db) = Some c
               \<and> staff_permitted current_user c db))
   \<and> (find_one (\<lambda>p. p_id p = payment_id) (payments db) = Some payment
        \<and> find_one (\<lambda>c. c_id c = p_course_id payment) (courses db) = Some course''
        \<and> \<not> payment_permitted current_user course''
      \<longrightarrow> (\<exists>e. update_payment payment_id pstatus current_user db = (Inl e, db)))
   \<and> (fst (update_payment payment_id pstatus current_user db) = Inr y
      \<longrightarrow> (\<exists>p c. find_one (\<lambda>p. p_id p = payment_id) (payments db) = Some p
               \<and> find_one (\<lambda>c. c_id c = p_course_id p) (courses db) = Some c
               \<and> payment_permitted current_user c))"
proof -
  have anyone: "create_course fr request current_user db
                  = create_course fr request other_user db"
    by (simp add: create_course_def)
  have student: "(\<exists>e. create_schedule fr schedule current_user db = (Inl e, db)
                      \<and> is_Forbidden e)
               \<and> (\<exists>e. update_exam exam_id status score feedback current_user db
                        = (Inl e, db))"
    if "u_role current_user = STUDENT"
    using that by (simp add: create_schedule_def update_exam_def)
  have booking: "\<exists>e. create_schedule fr schedule current_user db = (Inl e, db)
                     \<and> is_Forbidden e"
    if "find_one (\<lambda>c. c_id c = rq_course_id schedule) (courses db) = Some course
        \<and> find_one (\<lambda>t. t_id t = c_teacher_id course) (teachers db) = Some teacher
        \<and> \<not> staff_permitted current_user course db"
    using that create_schedule_forbidden by blast
  have booked: "\<exists>c. find_one (\<lambda>c. c_id c = rq_course_id schedule) (courses db) = Some c
                    \<and> staff_permitted current_user c db"
    if "fst (create_schedule fr schedule current_user db) = Inr s"
    using that by (rule create_schedule_permitted)
  have exam_gate: "\<exists>e. update_exam exam_id status score feedback current_user db
                         = (Inl e, db)"
    if "find_one (\<lambda>e. e_id e = exam_id) (exams db) = Some exam
        \<and> find_one (\<lambda>c. c_id c = e_course_id exam) (courses db) = Some course'
        \<and> \<not> staff_permitted current_user course' db"
    using that update_exam_refused by blast
  have exam_done: "\<exists>e c. find_one (\<lambda>e. e_id e = exam_id) (exams db) = Some e
               \<and> find_one (\<lambda>c. c_id c = e_course_id e) (courses db) = Some c
               \<and> staff_permitted current_user c db"
    if "fst (update_exam exam_id status score feedback current_user db) = Inr x"
    using that by (rule update_exam_permitted)
  have payment_gate: "\<exists>e. update_payment payment_id pstatus current_user db = (Inl e, db)"
    if "find_one (\<lambda>p. p_id p = payment_id) (payments db) = Some payment
        \<and> find_one (\<lambda>c. c_id c = p_course_id payment) (courses db) = Some course''
        \<and> \<not> payment_permitted current_user course''"
    using that update_payment_refused by blast
  have payment_done: "\<exists>p c. find_one (\<lambda>p. p_id p = payment_id) (payments db) = Some p
               \<and> find_one (\<lambda>c. c_id c = p_course_id p) (courses db) = Some c
               \<and> payment_permitted current_user c"
    if "fst (update_payment payment_id pstatus current_user db) = Inr y"
    using that by (rule update_payment_permitted)
  show ?thesis
    by (intro conjI impI) (fact anyone, (use student in blast)+, erule booking, erule booked,
        erule exam_gate, erule exam_done, erule payment_gate, erule payment_done)
qed

theorem operations_role_gated_witness:
  "(\<exists>e. create_schedule (fresh ''k1'' [] 400) (booking ''c1'' (at_clock 738000 10 0) 60)
          user_s2 db2 = (Inl e, db2) \<and> is_Forbidden e)
   \<and> (\<exists>e. create_schedule (fresh ''k1'' [] 400) (booking ''c1'' (at_clock 738000 10 0) 60)
          user_tu2 db2 = (Inl e, db2) \<and> is_Forbidden e)
   \<and> (\<exists>e. update_exam ''e1'' PASSED None None user_s2 db2 = (Inl e, db2))
   \<and> (\<exists>e. update_exam ''e1'' PASSED None None user_tu2 db2 = (Inl e, db2))
   \<and> (\<exists>e. update_payment ''p1'' PAYMENT_COMPLETED user_tu2 db2 = (Inl e, db2))
   \<and> fst (create_schedule (fresh ''k1'' [] 400) (booking ''c1'' (at_clock 738000 10 0) 60)
            user_tu1 db2)
       = Inr (new_schedule (fresh ''k1'' [] 400) (booking ''c1'' (at_clock 738000 10 0) 60))
   \<and> staff_permitted user_tu1 (new_course (fresh ''c1'' ''p1'' 100) (enroll CODE ''s1'' ''t1''))
         db2"
proof -
  let ?fr = "fresh ''k1'' [] 400"
  let ?bk = "booking ''c1'' (at_clock 738000 10 0) 60"
  let ?c = "new_course (fresh ''c1'' ''p1'' 100) (enroll CODE ''s1'' ''t1'')"
  let ?e = "new_exam (fresh ''e1'' [] 200)
              \<lparr> ec_course_id = ''c1'', ec_date = 5000, ec_status = SCHEDULED \<rparr>"
  let ?p = "new_payment (fresh ''c1'' ''p1'' 100) (enroll CODE ''s1'' ''t1'') school_1"
  have crs: "find_one (\<lambda>c. c_id c = rq_course_id ?bk) (courses db2) = Some ?c"
    by (simp add: db2_value db1_value booking_def new_course_def fresh_def)
  have tch: "find_one (\<lambda>t. t_id t = c_teacher_id ?c) (teachers db2) = Some teacher_t1"
    by (simp add: db2_value db1_value db0_def sample_people new_course_def enroll_def)
  have ex: "find_one (\<lambda>e. e_id e = ''e1'') (exams db2) = Some ?e"
    by (simp add: db2_value new_exam_def fresh_def)
  have ecrs: "find_one (\<lambda>c. c_id c = e_course_id ?e) (courses db2) = Some ?c"
    by (simp add: db2_value db1_value new_exam_def new_course_def fresh_def)
  have pay: "find_one (\<lambda>p. p_id p = ''p1'') (payments db2) = Some ?p"
    by (simp add: db2_value db1_value new_payment_def fresh_def)
  have pcrs: "find_one (\<lambda>c. c_id c = p_course_id ?p) (courses db2) = Some ?c"
    by (simp add: db2_value db1_value new_payment_def new_course_def fresh_def)
  have student: "u_role user_s2 = STUDENT"
    by (simp add: user_s2_def)
  have stranger: "\<not> staff_permitted user_tu2 ?c db2"
    by (simp add: staff_permitted_def db2_value db1_value db0_def sample_people
        new_course_def enroll_def)
  have not_payer: "\<not> payment_permitted user_tu2 ?c"
    by (simp add: payment_permitted_def user_tu2_def new_course_def enroll_def)
  have booked: "fst (create_schedule ?fr ?bk user_tu1 db2) = Inr (new_schedule ?fr ?bk)"
    by (simp add: create_schedule_def db2_value db1_value db0_def sample_people
        new_course_def enroll_def fresh_def booking_def at_clock_def teacher_course_ids_def
        find_to_list_def scheduling_limits_def existing_schedules_def add_timedelta_def
        replace_minute_0_def timedelta_minutes_def datetime_max_def)
  note by_student = operations_role_gated
    [of ?fr _ user_s2 db2 _ ?bk "''e1''" PASSED None None]
  note by_stranger = operations_role_gated
    [of ?fr _ user_tu2 db2 _ ?bk "''e1''" PASSED None None ?c teacher_t1 _ ?e ?c _
        "''p1''" ?p ?c PAYMENT_COMPLETED]
  note by_teacher = operations_role_gated
    [of ?fr _ user_tu1 db2 _ ?bk _ _ _ _ _ _ "new_schedule ?fr ?bk"]
  have a: "(\<exists>e. create_schedule ?fr ?bk user_s2 db2 = (Inl e, db2) \<and> is_Forbidden e)
           \<and> (\<exists>e. update_exam ''e1'' PASSED None None user_s2 db2 = (Inl e, db2))"
    using by_student student by blast
  have b: "\<exists>e. create_schedule ?fr ?bk user_tu2 db2 = (Inl e, db2) \<and> is_Forbidden e"
    using by_stranger crs tch stranger by blast
  have c: "\<exists>e. update_exam ''e1'' PASSED None None user_tu2 db2 = (Inl e, db2)"
    using by_stranger ex ecrs stranger by blast
  have d: "\<exists>e. update_payment ''p1'' PAYMENT_COMPLETED user_tu2 db2 = (Inl e, db2)"
    using by_stranger pay pcrs not_payer by blast
  have e: "staff_permitted user_tu1 ?c db2"
    using by_teacher booked crs by auto
  show ?thesis
    using a b c d e booked by blast
qed

section \<open>What is written to a course\<close>

text \<open>
  C10, as stated, fails: the course document is built from the whole request body
  (line 514), so an enrollment that carries a start date and a completion date creates
  a course with these dates.
\<close>

theorem course_dates_counterexample:
  "create_course (fresh ''c1'' ''p1'' 100)
     ((enroll CODE ''s1'' ''t1'')\<lparr> cc_start_date := Some 7, cc_completion_date := Some 9 \<rparr>)
     user_s1 db0
   = (Inr \<lparr> c_type = CODE, c_student_id = ''s1'', c_teacher_id = ''t1'',
            c_driving_school_id = ''sch1'', c_status = NOT_STARTED,
            c_start_date = Some 7, c_completion_date = Some 9,
            c_id = ''c1'', c_created_at = 100,
            c_google_meet_link = Some ''https://meet.google.com/tok'' \<rparr>,
      db0\<lparr> courses :=
             [\<lparr> c_type = CODE, c_student_id = ''s1'', c_teacher_id = ''t1'',
                c_driving_school_id = ''sch1'', c_status = NOT_STARTED,
                c_start_date = Some 7, c_completion_date = Some 9,
                c_id = ''c1'', c_created_at = 100,
                c_google_meet_link = Some ''https://meet.google.com/tok'' \<rparr>],
           payments :=
             [\<lparr> p_course_id = ''c1'', p_amount = 5000, p_status = PENDING, p_id = ''p1'',
                p_created_at = 100, p_transaction_id = None \<rparr>] \<rparr>)"
  by (simp add: create_course_def db0_def sample_people enroll_def enrollment_rules_def
      new_course_def new_payment_def course_price_def fresh_def insert_one_def)

lemma update_exam_frame:
  "map erase_status (courses (snd (update_exam exam_id status score feedback current_user db)))
     = map erase_status (courses db)"
  by (auto simp: update_exam_def propagate_exam_status_def Let_def map_update_one
      erase_status_def split: option.splits)

lemma update_payment_frame:
  "map erase_status (courses (snd (update_payment payment_id pstatus current_user db)))
     = map erase_status (courses db)"
  by (auto simp: update_payment_def propagate_payment_status_def Let_def map_update_one
      erase_status_def split: option.splits)

lemma create_schedule_courses:
  "courses (snd (create_schedule fr schedule current_user db)) = courses db"
  by (auto simp: create_schedule_def split: option.splits)

lemma create_exam_courses:
  "courses (snd (create_exam fr exam_request current_user db)) = courses db"
  by (auto simp: create_exam_def split: option.splits)

text \<open>
  C10, amended. A course created by enrollment carries the start date, the completion
  date and the status of the request (none, none and \<open>not_started\<close> when the request
  leaves them at their defaults) and is appended to the courses, which are otherwise
  unchanged. Recording an exam or a payment outcome changes no field of any course but
  the status; booking a slot and creating an exam change no course.
\<close>

theorem course_fields_frame:
  "(fst (create_course fr request current_user db) = Inr c
      \<longrightarrow> c_start_date c = cc_start_date request
        \<and> c_completion_date c = cc_completion_date request
        \<and> c_status c = cc_status request
        \<and> courses (snd (create_course fr request current_user db)) = courses db @ [c])
   \<and> map erase_status
        (courses (snd (update_exam exam_id status score feedback current_user db)))
       = map erase_status (courses db)
   \<and> map erase_status (courses (snd (update_payment payment_id pstatus current_user db)))
       = map erase_status (courses db)
   \<and> courses (snd (create_schedule fr schedule current_user db)) = courses db
   \<and> courses (snd (create_exam fr exam_request current_user db)) = courses db"
proof -
  have created: "c_start_date c = cc_start_date request
        \<and> c_completion_date c = cc_completion_date request
        \<and> c_status c = cc_status request
        \<and> courses (snd (create_course fr request current_user db)) = courses db @ [c]"
    if ok: "fst (create_course fr request current_user db) = Inr c"
  proof -
    from ok have chk: "enrollment_checks request db"
      and rules: "enrollment_rules request db = None" and c: "c = new_course fr request"
      by (simp_all add: create_course_accepted)
    from create_course_checked [OF chk, of fr current_user] rules
    have "courses (snd (create_course fr request current_user db)) = courses db @ [c]"
      by (auto simp: c insert_one_def)
    then show ?thesis
      by (simp add: c new_course_def)
  qed
  show ?thesis
    using created
    by (simp add: update_exam_frame update_payment_frame create_schedule_courses
        create_exam_courses)
qed

theorem course_fields_frame_witness:
  "fst (create_course (fresh ''c1'' ''p1'' 100) (enroll CODE ''s1'' ''t1'') user_s1 db0)
     = Inr (new_course (fresh ''c1'' ''p1'' 100) (enroll CODE ''s1'' ''t1''))
   \<and> c_start_date (new_course (fresh ''c1'' ''p1'' 100) (enroll CODE ''s1'' ''t1'')) = None
   \<and> c_completion_date (new_course (fresh ''c1'' ''p1'' 100) (enroll CODE ''s1'' ''t1''))
       = None
   \<and> courses db1 = [new_course (fresh ''c1'' ''p1'' 100) (enroll CODE ''s1'' ''t1'')]"
proof -
  have ok: "fst (create_course (fresh ''c1'' ''p1'' 100) (enroll CODE ''s1'' ''t1'') user_s1
                  db0)
            = Inr (new_course (fresh ''c1'' ''p1'' 100) (enroll CODE ''s1'' ''t1''))"
    by (simp add: create_course_def db0_def sample_people enroll_def enrollment_rules_def)
  have dates: "cc_start_date (enroll CODE ''s1'' ''t1'') = None"
    "cc_completion_date (enroll CODE ''s1'' ''t1'') = None"
    by (simp_all add: enroll_def)
  have none: "courses db0 = []"
    by (simp add: db0_def)
  show ?thesis
    using course_fields_frame [of "fresh ''c1'' ''p1'' 100" "enroll CODE ''s1'' ''t1''"
            user_s1 db0 "new_course (fresh ''c1'' ''p1'' 100) (enroll CODE ''s1'' ''t1'')"]
          ok dates none
    by (simp add: db1_def)
qed

section \<open>Booking a slot\<close>

lemma teacher_course_ids_nonempty:
  assumes "find_one (\<lambda>c. c_id c = cid) (courses db) = Some course"
  shows "teacher_course_ids db course \<noteq> []"
proof -
  have "course \<in> set (filter (\<lambda>c. c_teacher_id c = c_teacher_id course) (courses db))"
    using find_one_SomeD [OF assms] by simp
  then have "filter (\<lambda>c. c_teacher_id c = c_teacher_id course) (courses db) \<noteq> []"
    by (auto simp: filter_empty_conv)
  then show ?thesis
    by (simp add: teacher_course_ids_def find_to_list_def)
qed

lemma rejection_simps:
  "rejection (Inl e, d) = Some e" "rejection (Inr x, d) = None"
  by (simp_all add: rejection_def)

lemma case_option_same: "(case x of None \<Rightarrow> None | Some y \<Rightarrow> Some y) = x"
  by (cases x) simp_all

lemma rejection_create_schedule:
  "rejection (create_schedule fr schedule current_user db) =
     (if u_role current_user \<notin> set [MANAGER, TEACHER, ADMIN]
      then Some (HTTPException 403
                  ''Only managers, teachers, and admins can create schedules'')
      else
        (case find_one (\<lambda>c. c_id c = rq_course_id schedule) (courses db) of
           None \<Rightarrow> Some InvalidCourse
         | Some course \<Rightarrow>
             (case find_one (\<lambda>t. t_id t = c_teacher_id course) (teachers db) of
                None \<Rightarrow> Some TeacherNotFound
              | Some teacher \<Rightarrow>
                  if u_role current_user = TEACHER \<and>
                     (case find_one (\<lambda>t. t_user_id t = u_id current_user) (teachers db) of
                        None \<Rightarrow> True
                      | Some teacher_record \<Rightarrow> t_id teacher_record \<noteq> c_teacher_id course)
                  then Some (HTTPException 403
                              ''Teachers can only create schedules for their own courses'')
                  else
                    (case add_timedelta (replace_minute_0 (rq_date schedule))
                            (timedelta_minutes (rq_duration_minutes schedule)) of
                       None \<Rightarrow> Some OverflowError
                     | Some end_date \<Rightarrow>
                         (if teacher_course_ids db course \<noteq> []
                          then scheduling_limits db course (teacher_course_ids db course)
                                 (replace_minute_0 (rq_date schedule)) end_date
                          else None)))))"
  unfolding create_schedule_def
  by (simp only: option.case_distrib [where h = rejection] if_distrib [where f = rejection]
      rejection_simps case_option_same cong: option.case_cong if_cong)

lemma create_schedule_shape:
  "create_schedule fr schedule current_user db =
     (case rejection (create_schedule fr schedule current_user db) of
        Some e \<Rightarrow> (Inl e, db)
      | None \<Rightarrow> (Inr (new_schedule fr schedule),
                 db\<lparr> schedules := insert_one (new_schedule fr schedule) (schedules db) \<rparr>))"
proof -
  let ?h = "\<lambda>x. case x of
                 Some e \<Rightarrow> (Inl e, db)
               | None \<Rightarrow> (Inr (new_schedule fr schedule),
                          db\<lparr> schedules := insert_one (new_schedule fr schedule)
                                                (schedules db) \<rparr>)"
  show ?thesis
    unfolding rejection_create_schedule
    unfolding create_schedule_def
    by (simp only: option.case_distrib [where h = ?h] if_distrib [where f = ?h] option.case
        cong: option.case_cong if_cong)
qed

lemma create_schedule_run:
  assumes crs: "find_one (\<lambda>c. c_id c = rq_course_id schedule) (courses db) = Some course"
      and tch: "find_one (\<lambda>t. t_id t = c_teacher_id course) (teachers db) = Some teacher"
      and per: "staff_permitted current_user course db"
      and fin: "add_timedelta (replace_minute_0 (rq_date schedule))
                  (timedelta_minutes (rq_duration_minutes schedule)) = Some end_date"
  shows "create_schedule fr schedule current_user db =
      (case scheduling_limits db course (teacher_course_ids db course)
              (replace_minute_0 (rq_date schedule)) end_date of
         Some e \<Rightarrow> (Inl e, db)
       | None \<Rightarrow> (Inr (new_schedule fr schedule),
                  db\<lparr> schedules := insert_one (new_schedule fr schedule) (schedules db) \<rparr>))"
proof -
  have "rejection (create_schedule fr schedule current_user db)
          = scheduling_limits db course (teacher_course_ids db course)
              (replace_minute_0 (rq_date schedule)) end_date"
    unfolding rejection_create_schedule
    using crs tch fin staff_permitted_guards [OF per] teacher_course_ids_nonempty [OF crs]
    by auto
  then show ?thesis
    by (subst create_schedule_shape) simp
qed

lemma create_schedule_rejected:
  "fst (create_schedule fr schedule current_user db) = Inl e
     \<Longrightarrow> snd (create_schedule fr schedule current_user db) = db"
  by (subst create_schedule_shape, subst (asm) create_schedule_shape)
     (simp split: option.splits)

lemma create_schedule_accepted:
  "fst (create_schedule fr schedule current_user db) = Inr s
     \<Longrightarrow> s = new_schedule fr schedule
       \<and> snd (create_schedule fr schedule current_user db)
           = db\<lparr> schedules := schedules db @ [s] \<rparr>"
  by (subst create_schedule_shape, subst (asm) create_schedule_shape)
     (simp add: insert_one_def split: option.splits)

lemma replace_minute_0_twice: "replace_minute_0 (replace_minute_0 t) = replace_minute_0 t"
  by (simp add: replace_minute_0_def)

lemma db_parking_value:
  "db_parking = db_passed\<lparr>
     courses := [(new_course (fresh ''c1'' ''p1'' 100) (enroll CODE ''s1'' ''t1''))
                   \<lparr> c_status := COMPLETED \<rparr>,
                 new_course (fresh ''c3'' ''p3'' 300) (enroll PARKING ''s1'' ''t1'')],
     payments := payments db_passed
                 @ [new_payment (fresh ''c3'' ''p3'' 300) (enroll PARKING ''s1'' ''t1'')
                      school_1] \<rparr>"
proof -
  have chk: "enrollment_checks (enroll PARKING ''s1'' ''t1'') db_passed"
    using db_passed_people by (simp add: sample_checks)
  have rules: "enrollment_rules (enroll PARKING ''s1'' ''t1'') db_passed = None"
    by (simp add: enrollment_rules_def db_passed_courses new_course_def enroll_def)
  have sch: "find_one (\<lambda>s. s_id s = cc_driving_school_id (enroll PARKING ''s1'' ''t1''))
               (driving_schools db_passed) = Some school_1"
    using db_passed_people by (simp add: db0_def enroll_def school_1_def)
  show ?thesis
    using create_course_checked [OF chk, of "fresh ''c3'' ''p3'' 300" user_s1] rules sch
    by (simp add: db_parking_def db_passed_courses insert_one_def)
qed

lemma db_parking_lookup:
  "find_one (\<lambda>c. c_id c = ''c3'') (courses db_parking)
     = Some (new_course (fresh ''c3'' ''p3'' 300) (enroll PARKING ''s1'' ''t1''))"
  "find_one (\<lambda>t. t_id t = ''t1'') (teachers db_parking) = Some teacher_t1"
  "staff_permitted user_tu1 (new_course (fresh ''c3'' ''p3'' 300) (enroll PARKING ''s1'' ''t1''))
     db_parking"
  "schedules db_parking = []"
  using db_passed_people
  by (simp_all add: db_parking_value new_course_def fresh_def enroll_def db0_def
      sample_people staff_permitted_def db_passed_def update_exam_def db2_value db1_value
      new_exam_def Let_def)

lemma half_past_booking:
  "create_schedule (fresh ''k1'' [] 400) (booking ''c3'' (at_clock 738000 10 30) 45) user_tu1
     db_parking
   = (Inr \<lparr> sc_course_id = ''c3'', sc_date = at_clock 738000 10 30,
            sc_duration_minutes = 45, sc_id = ''k1'', sc_created_at = 400 \<rparr>,
      db_parking\<lparr> schedules :=
        [\<lparr> sc_course_id = ''c3'', sc_date = at_clock 738000 10 30,
            sc_duration_minutes = 45, sc_id = ''k1'', sc_created_at = 400 \<rparr>] \<rparr>)
   \<and> replace_minute_0 (at_clock 738000 10 30) = at_clock 738000 10 0
   \<and> at_clock 738000 10 30 \<noteq> at_clock 738000 10 0"
proof -
  let ?bk = "booking ''c3'' (at_clock 738000 10 30) 45"
  let ?c = "new_course (fresh ''c3'' ''p3'' 300) (enroll PARKING ''s1'' ''t1'')"
  have crs: "find_one (\<lambda>c. c_id c = rq_course_id ?bk) (courses db_parking) = Some ?c"
    by (simp add: booking_def db_parking_lookup)
  have tch: "find_one (\<lambda>t. t_id t = c_teacher_id ?c) (teachers db_parking) = Some teacher_t1"
    by (simp add: new_course_def enroll_def db_parking_lookup)
  have fin: "add_timedelta (replace_minute_0 (rq_date ?bk))
               (timedelta_minutes (rq_duration_minutes ?bk)) = Some (at_clock 738000 10 45)"
    by (simp add: booking_def at_clock_def add_timedelta_def replace_minute_0_def
        timedelta_minutes_def datetime_max_def)
  have lim: "scheduling_limits db_parking ?c (teacher_course_ids db_parking ?c)
               (replace_minute_0 (rq_date ?bk)) (at_clock 738000 10 45) = None"
    by (simp add: scheduling_limits_def existing_schedules_def day_schedules_def
        find_to_list_def db_parking_lookup new_course_def enroll_def add_timedelta_def
        replace_hour_0_def replace_minute_0_def timedelta_days_def datetime_max_def
        booking_def at_clock_def dict_get_def)
  show ?thesis
    unfolding create_schedule_run [OF crs tch db_parking_lookup(3) fin] lim
    by (simp add: new_schedule_def booking_def fresh_def insert_one_def db_parking_lookup
        at_clock_def replace_minute_0_def)
qed

text \<open>
  C4, as stated, fails: the stored schedule is built from the request as received
  (line 692). A booking for 10:30 is checked as the 10:00 slot and stored with 10:30.
\<close>

theorem schedule_start_counterexample:
  "fst (create_schedule (fresh ''k1'' [] 400) (booking ''c3'' (at_clock 738000 10 30) 45)
          user_tu1 db_parking)
   = Inr \<lparr> sc_course_id = ''c3'', sc_date = at_clock 738000 10 30,
           sc_duration_minutes = 45, sc_id = ''k1'', sc_created_at = 400 \<rparr>
   \<and> schedules (snd (create_schedule (fresh ''k1'' [] 400)
                       (booking ''c3'' (at_clock 738000 10 30) 45) user_tu1 db_parking))
   = [\<lparr> sc_course_id = ''c3'', sc_date = at_clock 738000 10 30,
        sc_duration_minutes = 45, sc_id = ''k1'', sc_created_at = 400 \<rparr>]
   \<and> replace_minute_0 (at_clock 738000 10 30) = at_clock 738000 10 0
   \<and> at_clock 738000 10 30 \<noteq> at_clock 738000 10 0"
  using half_past_booking by simp

text \<open>
  C4, amended. \<open>create_schedule\<close> truncates the requested start to the top of the hour
  for its checks only: two requests for the same course and duration whose starts lie in
  the same hour are rejected alike or accepted alike. On success the stored schedule
  carries the start and the duration of the request as received, and is appended to the
  schedules.
\<close>

theorem schedule_checked_on_the_hour:
  "(rq_course_id a = rq_course_id b \<and> rq_duration_minutes a = rq_duration_minutes b
      \<and> replace_minute_0 (rq_date a) = replace_minute_0 (rq_date b)
      \<longrightarrow> rejection (create_schedule fr a current_user db)
          = rejection (create_schedule fr' b current_user db))
   \<and> rejection (create_schedule fr a current_user db)
       = rejection (create_schedule fr (a\<lparr> rq_date := replace_minute_0 (rq_date a) \<rparr>)
                      current_user db)
   \<and> (fst (create_schedule fr a current_user db) = Inr s
      \<longrightarrow> sc_date s = rq_date a
        \<and> sc_duration_minutes s = rq_duration_minutes a
        \<and> sc_course_id s = rq_course_id a
        \<and> schedules (snd (create_schedule fr a current_user db)) = schedules db @ [s])"
proof -
  have alike: "rejection (create_schedule fr a current_user db)
                 = rejection (create_schedule fr' b current_user db)"
    if "rq_course_id a = rq_course_id b" "rq_duration_minutes a = rq_duration_minutes b"
       "replace_minute_0 (rq_date a) = replace_minute_0 (rq_date b)" for fr' b
    unfolding rejection_create_schedule that by (rule refl)
  have on_the_hour: "rejection (create_schedule fr a current_user db)
       = rejection (create_schedule fr (a\<lparr> rq_date := replace_minute_0 (rq_date a) \<rparr>)
                      current_user db)"
    by (rule alike) (simp_all add: replace_minute_0_twice)
  have stored: "sc_date s = rq_date a \<and> sc_duration_minutes s = rq_duration_minutes a
        \<and> sc_course_id s = rq_course_id a
        \<and> schedules (snd (create_schedule fr a current_user db)) = schedules db @ [s]"
    if "fst (create_schedule fr a current_user db) = Inr s"
    using create_schedule_accepted [OF that] by (simp add: new_schedule_def)
  show ?thesis
    using alike on_the_hour stored by blast
qed

theorem schedule_checked_on_the_hour_witness:
  "rejection (create_schedule (fresh ''k1'' [] 400) (booking ''c3'' (at_clock 738000 10 30) 45)
                user_tu1 db_parking)
     = rejection (create_schedule (fresh ''k2'' [] 500)
                    (booking ''c3'' (at_clock 738000 10 10) 45) user_tu1 db_parking)
   \<and> sc_date (new_schedule (fresh ''k1'' [] 400) (booking ''c3'' (at_clock 738000 10 30) 45))
       = at_clock 738000 10 30
   \<and> schedules (snd (create_schedule (fresh ''k1'' [] 400)
                       (booking ''c3'' (at_clock 738000 10 30) 45) user_tu1 db_parking))
       = [new_schedule (fresh ''k1'' [] 400) (booking ''c3'' (at_clock 738000 10 30) 45)]"
proof -
  let ?a = "booking ''c3'' (at_clock 738000 10 30) 45"
  let ?b = "booking ''c3'' (at_clock 738000 10 10) 45"
  have same: "rq_course_id ?a = rq_course_id ?b"
    "rq_duration_minutes ?a = rq_duration_minutes ?b"
    "replace_minute_0 (rq_date ?a) = replace_minute_0 (rq_date ?b)"
    by (simp_all add: booking_def at_clock_def replace_minute_0_def)
  have ok: "fst (create_schedule (fresh ''k1'' [] 400) ?a user_tu1 db_parking)
            = Inr (new_schedule (fresh ''k1'' [] 400) ?a)"
    using half_past_booking
    by (simp add: new_schedule_def booking_def fresh_def)
  show ?thesis
    using schedule_checked_on_the_hour [of ?a ?b "fresh ''k1'' [] 400" user_tu1 db_parking
            "fresh ''k2'' [] 500" "new_schedule (fresh ''k1'' [] 400) ?a"]
          same ok
    by (simp add: db_parking_lookup new_schedule_def booking_def)
qed

section \<open>Slots\<close>

lemma teacher_course_ids_all:
  assumes "few_courses db course"
  shows "set (teacher_course_ids db course)
         = c_id ` {c \<in> set (courses db). c_teacher_id c = c_teacher_id course}"
  using assms by (simp add: teacher_course_ids_def find_to_list_def few_courses_def)



lemma scheduling_limits_code:
  assumes "c_type course = CODE"
  shows "scheduling_limits db course ids lo hi =
         (if 20 \<le> length (existing_schedules db ids lo hi) then Some CapacityExceeded else None)"
  using assms by (simp add: scheduling_limits_def)


lemmas clock = at_clock_def add_timedelta_def replace_minute_0_def replace_hour_0_def
  timedelta_minutes_def timedelta_days_def datetime_max_def

lemma db_parking_ids:
  "courses db = courses db_parking \<Longrightarrow>
   teacher_course_ids db (new_course (fresh ''c3'' ''p3'' 300) (enroll PARKING ''s1'' ''t1''))
     = [''c1'', ''c3'']"
  "courses db = courses db_parking \<Longrightarrow>
   teacher_course_ids db ((new_course (fresh ''c1'' ''p1'' 100) (enroll CODE ''s1'' ''t1''))
                            \<lparr> c_status := COMPLETED \<rparr>)
     = [''c1'', ''c3'']"
  by (simp_all add: teacher_course_ids_def find_to_list_def db_parking_value new_course_def
      enroll_def fresh_def)












text \<open>
  The condition on running schedules cannot be dropped from the first part: the check
  reads the start of a stored schedule, never its duration. With a PARKING lesson of 120
  minutes stored at 09:00, a booking for 10:00 is accepted although the two overlap.
\<close>

lemma earlier_running_schedule_not_seen:
  "overlaps (at_clock 738000 10 0) (at_clock 738000 11 0)
     (lesson ''c3'' (at_clock 738000 9 0) 120 0)
   \<and> fst (create_schedule (fresh ''k2'' [] 500) (booking ''c3'' (at_clock 738000 10 0) 60)
            user_tu1 (db_parking\<lparr> schedules := [lesson ''c3'' (at_clock 738000 9 0) 120 0] \<rparr>))
     = Inr (new_schedule (fresh ''k2'' [] 500) (booking ''c3'' (at_clock 738000 10 0) 60))"
proof -
  let ?db = "db_parking\<lparr> schedules := [lesson ''c3'' (at_clock 738000 9 0) 120 0] \<rparr>"
  let ?bk = "booking ''c3'' (at_clock 738000 10 0) 60"
  let ?c = "new_course (fresh ''c3'' ''p3'' 300) (enroll PARKING ''s1'' ''t1'')"
  have crs: "find_one (\<lambda>c. c_id c = rq_course_id ?bk) (courses ?db) = Some ?c"
    by (simp add: booking_def db_parking_lookup)
  have tch: "find_one (\<lambda>t. t_id t = c_teacher_id ?c) (teachers ?db) = Some teacher_t1"
    by (simp add: new_course_def enroll_def db_parking_lookup)
  have per: "staff_permitted user_tu1 ?c ?db"
    using db_parking_lookup(3) by (simp add: staff_permitted_def)
  have fin: "add_timedelta (replace_minute_0 (rq_date ?bk))
               (timedelta_minutes (rq_duration_minutes ?bk)) = Some (at_clock 738000 11 0)"
    by (simp add: booking_def clock)
  have ids: "teacher_course_ids ?db ?c = [''c1'', ''c3'']"
    by (rule db_parking_ids) simp
  have lim: "scheduling_limits ?db ?c (teacher_course_ids ?db ?c)
               (replace_minute_0 (rq_date ?bk)) (at_clock 738000 11 0) = None"
    unfolding ids
    by (simp add: scheduling_limits_def existing_schedules_def day_schedules_def
        find_to_list_def lesson_def new_course_def enroll_def booking_def clock
        db_parking_value fresh_def dict_get_def)
  show ?thesis
    unfolding create_schedule_run [OF crs tch per fin] lim
    by (simp add: overlaps_def sc_end_def lesson_def clock)
qed

section \<open>The daily limit\<close>

lemma find_one_append:
  "find_one q (xs @ ys) = (case find_one q xs of None \<Rightarrow> find_one q ys | Some x \<Rightarrow> Some x)"
  by (induction xs) auto

lemma find_one_map_none: "(\<And>n. \<not> q (f n)) \<Longrightarrow> find_one q (map f ns) = None"
  by (simp add: find_one_None_iff)

lemma code_course_not_pk: "c_id (code_course n) \<noteq> ''pk''"
  by (simp add: code_course_def)

lemma db_busy_lookup:
  "find_one (\<lambda>c. c_id c = ''pk'') (courses db_busy) = Some parking_course"
  "find_one (\<lambda>t. t_id t = ''t1'') (teachers db_busy) = Some teacher_t1"
  "staff_permitted user_tu1 parking_course db_busy"
  by (simp_all add: db_busy_def find_one_append find_one_map_none code_course_not_pk
      staff_permitted_def db0_def sample_people)
     (simp_all add: parking_course_def)

lemma db_busy_ids:
  "teacher_course_ids db_busy parking_course = map (\<lambda>n. c_id (code_course n)) [0..<1000]"
proof -
  have "filter (\<lambda>c. c_teacher_id c = ''t1'') (map code_course [0..<1000]) = map code_course [0..<1000]"
    by (simp add: filter_map code_course_def o_def)
  then show ?thesis
    by (simp add: teacher_course_ids_def find_to_list_def db_busy_def parking_course_def o_def)
qed

lemma pk_not_scanned: "''pk'' \<notin> set (teacher_course_ids db_busy parking_course)"
  by (auto simp: db_busy_ids code_course_def)

lemma db_busy_teacher_schedules: "teacher_schedules db_busy ''t1'' = schedules db_busy"
proof -
  have "\<exists>c \<in> set (courses db_busy). c_teacher_id c = ''t1'' \<and> c_id c = ''pk''"
    by (simp add: db_busy_def parking_course_def)
  then show ?thesis
    by (simp add: teacher_schedules_def) (simp add: db_busy_def lesson_def)
qed

text \<open>
  C5 at a teacher with more than 1000 courses: the scan of line 633 stops at the first
  1000 courses, the PARKING course is the 1001st, and its lessons are neither found in
  the slot nor counted for the day. With three PARKING lessons stored on the day, a
  fourth booking on that day succeeds.
\<close>

theorem daily_limit_beyond_scan:
  "day_count db_busy ''t1'' PARKING (at_clock 738000 15 0) = 3
   \<and> create_schedule (fresh ''k4'' [] 500) (booking ''pk'' (at_clock 738000 15 0) 60)
        user_tu1 db_busy
       = (Inr (new_schedule (fresh ''k4'' [] 500) (booking ''pk'' (at_clock 738000 15 0) 60)),
          db_busy\<lparr> schedules := schedules db_busy
             @ [new_schedule (fresh ''k4'' [] 500) (booking ''pk'' (at_clock 738000 15 0) 60)] \<rparr>)
   \<and> day_count
         (db_busy\<lparr> schedules := schedules db_busy
             @ [new_schedule (fresh ''k4'' [] 500) (booking ''pk'' (at_clock 738000 15 0) 60)] \<rparr>)
         ''t1'' PARKING (at_clock 738000 15 0) = 4"
proof -
  let ?fr = "fresh ''k4'' [] 500"
  let ?bk = "booking ''pk'' (at_clock 738000 15 0) 60"
  let ?db' = "db_busy\<lparr> schedules := schedules db_busy @ [new_schedule ?fr ?bk] \<rparr>"
  have crs: "find_one (\<lambda>c. c_id c = rq_course_id ?bk) (courses db_busy) = Some parking_course"
    by (simp add: booking_def db_busy_lookup)
  have tch: "find_one (\<lambda>t. t_id t = c_teacher_id parking_course) (teachers db_busy)
             = Some teacher_t1"
    using db_busy_lookup(2) by (simp add: parking_course_def)
  have fin: "add_timedelta (replace_minute_0 (rq_date ?bk))
               (timedelta_minutes (rq_duration_minutes ?bk)) = Some (at_clock 738000 16 0)"
    by (simp add: booking_def clock)
  have unseen: "filter (\<lambda>s. p s \<and> sc_course_id s \<in> set (teacher_course_ids db_busy parking_course))
                  (schedules db_busy) = []" for p
    using pk_not_scanned by (simp add: db_busy_def lesson_def)
  have lim: "scheduling_limits db_busy parking_course
               (teacher_course_ids db_busy parking_course)
               (replace_minute_0 (rq_date ?bk)) (at_clock 738000 16 0) = None"
    using unseen [of "\<lambda>s. sc_date s < at_clock 738000 16 0
                          \<and> replace_minute_0 (rq_date ?bk) \<le> sc_date s"]
          unseen [of "\<lambda>s. replace_hour_0 (replace_minute_0 (rq_date ?bk)) \<le> sc_date s
                          \<and> sc_date s < at_clock 738001 0 0"]
    by (simp add: scheduling_limits_def existing_schedules_def day_schedules_def
        find_to_list_def parking_course_def booking_def clock dict_get_def conj_commute
        conj_left_commute)
  have run: "create_schedule ?fr ?bk user_tu1 db_busy = (Inr (new_schedule ?fr ?bk), ?db')"
    unfolding create_schedule_run [OF crs tch db_busy_lookup(3) fin] lim
    by (simp add: insert_one_def)
  have before: "day_count db_busy ''t1'' PARKING (at_clock 738000 15 0) = 3"
    unfolding day_count_def db_busy_teacher_schedules
    by (simp add: db_busy_def lesson_def clock)
       (simp add: find_one_append find_one_map_none code_course_not_pk parking_course_def)
  have sched': "teacher_schedules ?db' ''t1'' = schedules ?db'"
  proof -
    have "\<exists>c \<in> set (courses ?db'). c_teacher_id c = ''t1'' \<and> c_id c = ''pk''"
      by (simp add: db_busy_def parking_course_def)
    then show ?thesis
      by (simp add: teacher_schedules_def)
         (simp add: db_busy_def lesson_def new_schedule_def booking_def)
  qed
  have after: "day_count ?db' ''t1'' PARKING (at_clock 738000 15 0) = 4"
    unfolding day_count_def sched'
    by (simp add: db_busy_def lesson_def clock new_schedule_def booking_def)
       (simp add: find_one_append find_one_map_none code_course_not_pk parking_course_def)
  show ?thesis
    using before run after by simp
qed

text \<open>Within the limits of the scans the daily limit holds. The counting loop first.\<close>

lemma dict_get_upd: "dict_get (d(k \<mapsto> v)) k' = (if k' = k then v else dict_get d k')"
  by (simp add: dict_get_def)

lemma dict_get_day_course_types:
  "dict_get (day_course_types cs dss d) ty
     = dict_get d ty
       + length (filter (\<lambda>ds. case find_one (\<lambda>c. c_id c = sc_course_id ds) cs of
                                 None \<Rightarrow> False
                               | Some c \<Rightarrow> c_type c = ty) dss)"
proof (induction dss arbitrary: d)
  case Nil
  show ?case by simp
next
  case (Cons ds dss)
  show ?case
  proof (cases "find_one (\<lambda>c. c_id c = sc_course_id ds) cs")
    case None
    then show ?thesis
      by (simp add: Cons.IH)
  next
    case (Some c)
    let ?d = "d(c_type c \<mapsto> dict_get d (c_type c) + 1)"
    let ?n = "length (filter (\<lambda>ds. case find_one (\<lambda>c. c_id c = sc_course_id ds) cs of
                                       None \<Rightarrow> False
                                     | Some c \<Rightarrow> c_type c = ty) dss)"
    have "dict_get (day_course_types cs (ds # dss) d) ty
          = dict_get (day_course_types cs dss ?d) ty"
      using Some by simp
    also have "\<dots> = dict_get ?d ty + ?n"
      by (rule Cons.IH)
    also have "dict_get ?d ty = dict_get d ty + (if c_type c = ty then 1 else 0)"
      by (simp add: dict_get_def)
    finally show ?thesis
      using Some by simp
  qed
qed

lemma replace_hour_0_minute: "replace_hour_0 (replace_minute_0 t) = replace_hour_0 t"
proof -
  have "(t - t mod 3600000000) mod 86400000000 = t mod 86400000000 - t mod 3600000000"
  proof -
    have "t - t mod 3600000000 = 3600000000 * (t div 3600000000)"
      by (simp add: minus_mod_eq_mult_div)
    moreover have "(3600000000 * (t div 3600000000)) mod (3600000000 * 24)
                   = 3600000000 * ((t div 3600000000) mod 24)"
      by (rule mult_mod_right [symmetric])
    moreover have "t mod (3600000000 * 24)
                   = 3600000000 * ((t div 3600000000) mod 24) + t mod 3600000000"
      by (rule zmod_zmult2_eq) simp
    ultimately show ?thesis by simp
  qed
  then show ?thesis
    by (simp add: replace_hour_0_def replace_minute_0_def)
qed

lemma day_bounds:
  "replace_hour_0 t \<le> t" "t < replace_hour_0 t + timedelta_days 1"
  by (simp_all add: replace_hour_0_def timedelta_days_def)

lemma day_schedules_all:
  assumes few: "few_courses db course"
      and few_day: "length (filter (\<lambda>s. lo \<le> sc_date s \<and> sc_date s < hi)
                              (teacher_schedules db (c_teacher_id course))) \<le> 1000"
  shows "day_schedules db (teacher_course_ids db course) lo hi
         = filter (\<lambda>s. lo \<le> sc_date s \<and> sc_date s < hi)
             (teacher_schedules db (c_teacher_id course))"
proof -
  have "filter (\<lambda>s. lo \<le> sc_date s \<and> sc_date s < hi
                     \<and> sc_course_id s \<in> set (teacher_course_ids db course)) (schedules db)
        = filter (\<lambda>s. lo \<le> sc_date s \<and> sc_date s < hi)
            (teacher_schedules db (c_teacher_id course))"
    unfolding teacher_schedules_def filter_filter teacher_course_ids_all [OF few]
    by (rule filter_cong) (force simp: image_iff)+
  then show ?thesis
    using few_day by (simp add: day_schedules_def find_to_list_def)
qed

lemma day_count_insert:
  "day_count (db\<lparr> schedules := schedules db @ [s] \<rparr>) tid ty t \<le> day_count db tid ty t + 1"
  by (simp add: day_count_def teacher_schedules_def)

text \<open>
  For a teacher with at most 1000 courses and at most 1000 schedules on the day, a
  PARKING or ROAD booking on a day that already holds three schedules of that type is
  rejected, and after a booking that succeeds the day holds at most three. A CODE
  booking is never rejected for the day.
\<close>

lemma daily_limit_within_scan:
  assumes crs: "find_one (\<lambda>c. c_id c = rq_course_id schedule) (courses db) = Some course"
      and tch: "find_one (\<lambda>t. t_id t = c_teacher_id course) (teachers db) = Some teacher"
      and per: "staff_permitted current_user course db"
      and fin: "add_timedelta (replace_minute_0 (rq_date schedule))
                  (timedelta_minutes (rq_duration_minutes schedule)) = Some end_date"
      and few: "few_courses db course"
      and ty: "c_type course \<noteq> CODE"
      and day: "add_timedelta (replace_hour_0 (rq_date schedule)) (timedelta_days 1)
                  = Some day_end"
      and few_day: "length (filter (\<lambda>s. replace_hour_0 (rq_date schedule) \<le> sc_date s
                                        \<and> sc_date s < day_end)
                              (teacher_schedules db (c_teacher_id course))) \<le> 1000"
  shows "(3 \<le> day_count db (c_teacher_id course) (c_type course) (rq_date schedule)
            \<longrightarrow> (\<exists>e. create_schedule fr schedule current_user db = (Inl e, db)
                     \<and> (e = SlotTaken \<or> is_DailyCapacityExceeded e)))
       \<and> (fst (create_schedule fr schedule current_user db) = Inr s
            \<longrightarrow> day_count (snd (create_schedule fr schedule current_user db))
                  (c_teacher_id course) (c_type course) (rq_date schedule) \<le> 3)"
proof -
  let ?lo = "replace_minute_0 (rq_date schedule)"
  let ?ids = "teacher_course_ids db course"
  let ?n = "day_count db (c_teacher_id course) (c_type course) (rq_date schedule)"
  note run = create_schedule_run [OF crs tch per fin, of fr]
  have day_end: "day_end = replace_hour_0 (rq_date schedule) + timedelta_days 1"
    using day by (auto simp: add_timedelta_def split: if_splits)
  have kind: "c_type course = PARKING \<or> c_type course = ROAD"
    using ty by (cases "c_type course") simp_all
  have count: "dict_get (day_course_types (courses db)
                           (day_schedules db ?ids (replace_hour_0 ?lo) day_end) Map.empty)
                 (c_type course) = ?n"
    unfolding replace_hour_0_minute day_schedules_all [OF few few_day]
      dict_get_day_course_types
    by (simp add: day_count_def day_end dict_get_def)
  have limits: "scheduling_limits db course ?ids ?lo end_date =
      (if existing_schedules db ?ids ?lo end_date \<noteq> [] then Some SlotTaken
       else if 3 \<le> ?n
       then Some (if c_type course = PARKING then DailyCapacityExceeded_PARKING
                  else DailyCapacityExceeded_ROAD)
       else None)"
    using ty kind day count
    by (auto simp: scheduling_limits_def replace_hour_0_minute Let_def)
  have full: "\<exists>e. create_schedule fr schedule current_user db = (Inl e, db)
                  \<and> (e = SlotTaken \<or> is_DailyCapacityExceeded e)"
    if "3 \<le> ?n"
    using that by (simp add: run limits is_DailyCapacityExceeded_def)
  have kept: "day_count (snd (create_schedule fr schedule current_user db))
                (c_teacher_id course) (c_type course) (rq_date schedule) \<le> 3"
    if ok: "fst (create_schedule fr schedule current_user db) = Inr s"
  proof -
    from ok have "?n < 3"
      by (auto simp: run limits split: if_splits)
    moreover have "snd (create_schedule fr schedule current_user db)
                   = db\<lparr> schedules := schedules db @ [s] \<rparr>"
      using create_schedule_accepted [OF ok] by simp
    ultimately show ?thesis
      using day_count_insert [of db s "c_teacher_id course" "c_type course" "rq_date schedule"]
      by simp
  qed
  show ?thesis
    using full kept by blast
qed

lemma no_daily_limit_for_code:
  assumes "find_one (\<lambda>c. c_id c = rq_course_id schedule) (courses db) = Some course"
      and "c_type course = CODE"
  shows "rejection (create_schedule fr schedule current_user db)
           \<noteq> Some DailyCapacityExceeded_PARKING
       \<and> rejection (create_schedule fr schedule current_user db)
           \<noteq> Some DailyCapacityExceeded_ROAD"
  unfolding rejection_create_schedule using assms
  by (simp add: scheduling_limits_code split: option.splits)

end
